theory Spec2Isabelle
  imports
    Complex_Main
    "HOL-Library.AList"
    "HOL-Library.Sublist"
    "HOL-Library.Char_ord"
    "HOL-Library.List_Lexorder"
    "HOL-Library.Multiset"
begin

section \<open>The subscription ledger of \<^verbatim>\<open>data_manager.py\<close>\<close>

text \<open>
  \<^verbatim>\<open>DataManager\<close> keeps one JSON file per year in a data directory and performs every
  operation as a cycle of loading a year, changing the loaded value and saving it. The
  values it handles are whatever \<^verbatim>\<open>json.load\<close> returns, so the embedding works on JSON
  values with Python's dynamic behaviour: an operation on a value of the wrong shape
  raises, and a raise is a result \<open>Inl\<close> of the model.

  Conventions of the embedding:
  \<^item> a Python \<^verbatim>\<open>str\<close> is a \<^typ>\<open>string\<close>, read as a sequence of code points below 256;
  \<^item> a \<^verbatim>\<open>dict\<close> is an association list in insertion order (\<open>JObj\<close>); its keys are
    pairwise distinct in every value that comes from Python, and the operations below
    keep them so;
  \<^item> a \<^verbatim>\<open>float\<close> is the rational number it denotes; rounding, infinities and NaN are
    not modelled;
  \<^item> \<^verbatim>\<open>datetime.now().isoformat()\<close> is an input \<open>now\<close> of every operation: all readings
    of the clock within one call are given this one value;
  \<^item> the \<^verbatim>\<open>json\<close> module is outside the repository. A text is represented by what
    \<^verbatim>\<open>json.loads\<close> makes of it (\<open>Garbled\<close> when it raises \<^verbatim>\<open>JSONDecodeError\<close>),
    and \<^verbatim>\<open>json.dumps\<close> of a value is the text that parses back to it;
  \<^item> every write is completed. \<^verbatim>\<open>save_data\<close> swallows the exception of a write that fails (a
    string that UTF-8 cannot encode, a file name beyond the limit of the file system) and
    leaves a truncated file or none; the strings of the model can all be encoded and its
    file names have no limit, so the model has no such write, and nothing below is stated
    about one.
\<close>

subsection \<open>JSON values and the Python operations used on them\<close>

datatype json =
    JNull
  | JBool bool
  | JInt int
  | JFloat rat
  | JStr string
  | JArr "json list"
  | JObj "(string \<times> json) list"

text \<open>
  The exception classes that the code can meet. \<open>Unmodelled\<close> is not a Python
  exception: it marks the two places (a member name that is a number, a sort key that is
  not a string) where the model does not follow the interpreter.
\<close>

datatype py_exc =
    KeyError
  | TypeError
  | AttributeError
  | ValueError
  | ZeroDivisionError
  | UnicodeDecodeError
  | Unmodelled

type_synonym 'a result = "py_exc + 'a"

definition and_then :: "'a result \<Rightarrow> ('a \<Rightarrow> 'b result) \<Rightarrow> 'b result" where
  "and_then r f = (case r of Inl e \<Rightarrow> Inl e | Inr v \<Rightarrow> f v)"

text \<open>\<^verbatim>\<open>x[k]\<close> for a string \<open>k\<close>.\<close>

definition py_getitem :: "json \<Rightarrow> string \<Rightarrow> json result" where
  "py_getitem x k =
     (case x of
        JObj d \<Rightarrow> (case map_of d k of None \<Rightarrow> Inl KeyError | Some v \<Rightarrow> Inr v)
      | _ \<Rightarrow> Inl TypeError)"

text \<open>\<^verbatim>\<open>x[k] = v\<close>: an existing key keeps its place, a new key goes last.\<close>

definition py_setitem :: "json \<Rightarrow> string \<Rightarrow> json \<Rightarrow> json result" where
  "py_setitem x k v =
     (case x of
        JObj d \<Rightarrow> Inr (JObj (AList.update k v d))
      | _ \<Rightarrow> Inl TypeError)"

text \<open>\<^verbatim>\<open>del x[k]\<close>.\<close>

definition py_delitem :: "json \<Rightarrow> string \<Rightarrow> json result" where
  "py_delitem x k =
     (case x of
        JObj d \<Rightarrow> (case map_of d k of None \<Rightarrow> Inl KeyError
                   | Some v \<Rightarrow> Inr (JObj (AList.delete k d)))
      | _ \<Rightarrow> Inl TypeError)"

text \<open>\<^verbatim>\<open>x.get(k, dflt)\<close>: only a dict has the method.\<close>

definition py_get :: "json \<Rightarrow> string \<Rightarrow> json \<Rightarrow> json result" where
  "py_get x k dflt =
     (case x of
        JObj d \<Rightarrow> Inr (case map_of d k of None \<Rightarrow> dflt | Some v \<Rightarrow> v)
      | _ \<Rightarrow> Inl AttributeError)"

text \<open>
  \<^verbatim>\<open>k in x\<close> for a string \<open>k\<close>: a key of a dict, an element of a list (a string equals
  only a string), a substring of a string.
\<close>

definition py_in :: "string \<Rightarrow> json \<Rightarrow> bool result" where
  "py_in k x =
     (case x of
        JObj d \<Rightarrow> Inr (map_of d k \<noteq> None)
      | JArr xs \<Rightarrow> Inr (JStr k \<in> set xs)
      | JStr s \<Rightarrow> Inr (sublist k s)
      | _ \<Rightarrow> Inl TypeError)"

text \<open>\<^verbatim>\<open>x.append(v)\<close>.\<close>

definition py_append :: "json \<Rightarrow> json \<Rightarrow> json result" where
  "py_append x v =
     (case x of
        JArr xs \<Rightarrow> Inr (JArr (xs @ [v]))
      | _ \<Rightarrow> Inl AttributeError)"

text \<open>\<^verbatim>\<open>x.remove(k)\<close> for a string \<open>k\<close>: the first equal element goes.\<close>

definition py_remove :: "json \<Rightarrow> string \<Rightarrow> json result" where
  "py_remove x k =
     (case x of
        JArr xs \<Rightarrow> (if JStr k \<in> set xs then Inr (JArr (remove1 (JStr k) xs))
                    else Inl ValueError)
      | _ \<Rightarrow> Inl AttributeError)"

text \<open>\<^verbatim>\<open>x.copy()\<close>.\<close>

definition py_copy :: "json \<Rightarrow> json result" where
  "py_copy x =
     (case x of
        JArr xs \<Rightarrow> Inr (JArr xs)
      | JObj d \<Rightarrow> Inr (JObj d)
      | _ \<Rightarrow> Inl AttributeError)"

text \<open>\<^verbatim>\<open>for v in x\<close>: the elements of a list, the keys of a dict, the characters of a string.\<close>

definition py_iter :: "json \<Rightarrow> json list result" where
  "py_iter x =
     (case x of
        JArr xs \<Rightarrow> Inr xs
      | JObj d \<Rightarrow> Inr (map (\<lambda>kv. JStr (fst kv)) d)
      | JStr s \<Rightarrow> Inr (map (\<lambda>c. JStr [c]) s)
      | _ \<Rightarrow> Inl TypeError)"

text \<open>\<^verbatim>\<open>len(x)\<close>.\<close>

definition py_len :: "json \<Rightarrow> nat result" where
  "py_len x =
     (case x of
        JArr xs \<Rightarrow> Inr (length xs)
      | JObj d \<Rightarrow> Inr (length d)
      | JStr s \<Rightarrow> Inr (length s)
      | _ \<Rightarrow> Inl TypeError)"

text \<open>The truth value of \<open>x\<close> in \<^verbatim>\<open>if x\<close> and \<^verbatim>\<open>not x\<close>.\<close>

definition py_truthy :: "json \<Rightarrow> bool" where
  "py_truthy x =
     (case x of
        JNull \<Rightarrow> False
      | JBool b \<Rightarrow> b
      | JInt i \<Rightarrow> i \<noteq> 0
      | JFloat r \<Rightarrow> r \<noteq> 0
      | JStr s \<Rightarrow> s \<noteq> []
      | JArr xs \<Rightarrow> xs \<noteq> []
      | JObj d \<Rightarrow> d \<noteq> [])"

text \<open>\<^verbatim>\<open>x == p\<close> for a bool \<open>p\<close>: \<^verbatim>\<open>True\<close> equals 1 and 1.0, \<^verbatim>\<open>False\<close> equals 0 and 0.0.\<close>

definition py_eq_bool :: "json \<Rightarrow> bool \<Rightarrow> bool" where
  "py_eq_bool x p =
     (case x of
        JBool b \<Rightarrow> b = p
      | JInt i \<Rightarrow> i = (if p then 1 else 0)
      | JFloat r \<Rightarrow> r = (if p then 1 else 0)
      | _ \<Rightarrow> False)"

subsection \<open>\<^verbatim>\<open>str(int)\<close> and \<^verbatim>\<open>int(str)\<close>\<close>

definition digit_char :: "nat \<Rightarrow> char" where
  "digit_char d = char_of (48 + d)"

function str_nat :: "nat \<Rightarrow> string" where
  "str_nat n = (if n < 10 then [digit_char n] else str_nat (n div 10) @ [digit_char (n mod 10)])"
  by pat_completeness auto
termination
  by (relation "measure id") auto

declare str_nat.simps [simp del]

text \<open>
  \<^verbatim>\<open>str(i)\<close>, in decimal. The interpreter refuses an integer of more than 4300 digits here
  as it does in \<^verbatim>\<open>int\<close>; the years of the model are taken to be below that.
\<close>

definition py_str :: "int \<Rightarrow> string" where
  "py_str i = (if i < 0 then CHR ''-'' # str_nat (nat (- i)) else str_nat (nat i))"

definition is_digit :: "char \<Rightarrow> bool" where
  "is_digit c = (48 \<le> (of_char c :: nat) \<and> (of_char c :: nat) \<le> 57)"

definition digit_val :: "char \<Rightarrow> nat" where
  "digit_val c = of_char c - 48"

text \<open>White space that \<^verbatim>\<open>int\<close> skips at both ends: tab to carriage return, space, NEL, NBSP.\<close>

definition is_space :: "char \<Rightarrow> bool" where
  "is_space c = ((of_char c :: nat) \<in> {9, 10, 11, 12, 13, 32, 133, 160})"

text \<open>
  The digits after the sign: a digit first, then digits with single underscores
  between them. \<open>scan_digits acc cs\<close> continues after a digit.
\<close>

fun scan_digits :: "nat \<Rightarrow> string \<Rightarrow> nat option" where
  "scan_digits acc [] = Some acc"
| "scan_digits acc [c] = (if is_digit c then Some (acc * 10 + digit_val c) else None)"
| "scan_digits acc (c # d # cs) =
     (if is_digit c then scan_digits (acc * 10 + digit_val c) (d # cs)
      else if c = CHR ''_'' \<and> is_digit d then scan_digits (acc * 10 + digit_val d) cs
      else None)"

definition parse_nat :: "string \<Rightarrow> nat option" where
  "parse_nat s =
     (case s of
        [] \<Rightarrow> None
      | c # cs \<Rightarrow> if is_digit c then scan_digits (digit_val c) cs else None)"

text \<open>
  \<^verbatim>\<open>int(s)\<close>: \<open>None\<close> is \<^verbatim>\<open>ValueError\<close>. A string with more than 4300 digits is refused,
  which is the interpreter's default limit (\<^verbatim>\<open>sys.int_max_str_digits\<close>) since CPython 3.11.
\<close>

definition py_int :: "string \<Rightarrow> int option" where
  "py_int s =
     (case rev (dropWhile is_space (rev (dropWhile is_space s))) of
        [] \<Rightarrow> None
      | c # cs \<Rightarrow>
          if length (filter is_digit (c # cs)) > 4300 then None
          else if c = CHR ''-'' then map_option (\<lambda>n. - int n) (parse_nat cs)
          else if c = CHR ''+'' then map_option int (parse_nat cs)
          else map_option int (parse_nat (c # cs)))"

subsection \<open>The data directory\<close>

text \<open>
  The content of a text, by what \<^verbatim>\<open>json.loads\<close> makes of it, and the content of a
  file, by what reading it as UTF-8 makes of its bytes.
\<close>

datatype jtext = Garbled | Doc json

datatype content = Undecodable | Text jtext

text \<open>The data directory: file names and contents, in the order \<^verbatim>\<open>os.listdir\<close> gives.\<close>

type_synonym store = "(string \<times> content) list"

definition write_file :: "store \<Rightarrow> string \<Rightarrow> content \<Rightarrow> store" where
  "write_file fs path c = AList.update path c fs"

definition get_data_file_path :: "int \<Rightarrow> string" where
  "get_data_file_path year = ''subscription_data_'' @ py_str year @ ''.json''"

definition default_record :: "string \<Rightarrow> int \<Rightarrow> json" where
  "default_record now year =
     JObj [(''year'', JInt year),
           (''members'', JArr []),
           (''payments'', JObj []),
           (''payment_history'', JArr []),
           (''settings'', JObj [(''total_price'', JFloat 100), (''max_slots'', JInt 10)]),
           (''created_at'', JStr now),
           (''updated_at'', JStr now)]"

text \<open>
  \<^verbatim>\<open>load_data\<close>: the \<^verbatim>\<open>except\<close> clause names \<^verbatim>\<open>JSONDecodeError\<close> and
  \<^verbatim>\<open>FileNotFoundError\<close>; the \<^verbatim>\<open>UnicodeDecodeError\<close> of a file that is not UTF-8 is
  neither and reaches the caller.
\<close>

definition load_data :: "store \<Rightarrow> string \<Rightarrow> int \<Rightarrow> json result" where
  "load_data fs now year =
     (case map_of fs (get_data_file_path year) of
        None \<Rightarrow> Inr (default_record now year)
      | Some Undecodable \<Rightarrow> Inl UnicodeDecodeError
      | Some (Text Garbled) \<Rightarrow> Inr (default_record now year)
      | Some (Text (Doc j)) \<Rightarrow> Inr j)"

text \<open>
  \<^verbatim>\<open>save_data\<close>: the assignment to \<^verbatim>\<open>data["updated_at"]\<close> stands before the \<^verbatim>\<open>try\<close>,
  so a value that is not a dict raises \<^verbatim>\<open>TypeError\<close> and nothing is written. The \<^verbatim>\<open>try\<close>
  holds the write, and its handler prints and returns: by the convention on writes, the
  write of the model is always the completed one, and the handler has no branch here.
\<close>

definition save_data :: "store \<Rightarrow> string \<Rightarrow> int \<Rightarrow> json \<Rightarrow> store result" where
  "save_data fs now year data =
     and_then (py_setitem data ''updated_at'' (JStr now)) (\<lambda>data'.
       Inr (write_file fs (get_data_file_path year) (Text (Doc data'))))"

subsection \<open>Listing the years\<close>

text \<open>\<^verbatim>\<open>s.replace(p, "")\<close>: the occurrences of \<open>p\<close> are cut out from left to right.\<close>

function remove_all :: "string \<Rightarrow> string \<Rightarrow> string" where
  "remove_all p [] = []"
| "remove_all p (c # cs) =
     (if p \<noteq> [] \<and> prefix p (c # cs) then remove_all p (drop (length p) (c # cs))
      else c # remove_all p cs)"
  by pat_completeness auto
termination
  by (relation "measure (\<lambda>(p, s). length s)") auto

definition year_of_filename :: "string \<Rightarrow> int option" where
  "year_of_filename filename =
     (if prefix ''subscription_data_'' filename \<and> suffix ''.json'' filename
      then py_int (remove_all ''.json'' (remove_all ''subscription_data_'' filename))
      else None)"

definition get_available_years :: "store \<Rightarrow> int list" where
  "get_available_years fs = sort (List.map_filter year_of_filename (map fst fs))"

subsection \<open>Members\<close>

text \<open>
  The loop \<^verbatim>\<open>for member in target_data["members"]: target_data["payments"][member] = {}\<close>.
  A list or a dict cannot be a key; a number, a bool or \<^verbatim>\<open>None\<close> can, and what
  \<^verbatim>\<open>json.dump\<close> then writes for it is not modelled.
\<close>

fun reset_payments :: "json list \<Rightarrow> (string \<times> json) list \<Rightarrow> (string \<times> json) list result" where
  "reset_payments [] pm = Inr pm"
| "reset_payments (m # ms) pm =
     (case m of
        JStr k \<Rightarrow> reset_payments ms (AList.update k (JObj []) pm)
      | JArr _ \<Rightarrow> Inl TypeError
      | JObj _ \<Rightarrow> Inl TypeError
      | _ \<Rightarrow> Inl Unmodelled)"

definition copy_members_from_year :: "store \<Rightarrow> string \<Rightarrow> int \<Rightarrow> int \<Rightarrow> store result" where
  "copy_members_from_year fs now source_year target_year =
     and_then (load_data fs now source_year) (\<lambda>source_data.
     and_then (load_data fs now target_year) (\<lambda>target_data.
     and_then (py_get source_data ''members'' (JArr [])) (\<lambda>ms.
     and_then (py_copy ms) (\<lambda>ms.
     and_then (py_setitem target_data ''members'' ms) (\<lambda>target_data.
     and_then (py_setitem target_data ''payments'' (JObj [])) (\<lambda>target_data.
     and_then (py_iter ms) (\<lambda>members.
     and_then (reset_payments members []) (\<lambda>pm.
     and_then (py_setitem target_data ''payments'' (JObj pm)) (\<lambda>target_data.
     save_data fs now target_year target_data)))))))))"

definition add_member :: "store \<Rightarrow> string \<Rightarrow> int \<Rightarrow> string \<Rightarrow> store result" where
  "add_member fs now year member_name =
     and_then (load_data fs now year) (\<lambda>data.
     and_then (py_getitem data ''members'') (\<lambda>ms.
     and_then (py_in member_name ms) (\<lambda>present.
     if \<not> present then
       and_then (py_append ms (JStr member_name)) (\<lambda>ms.
       and_then (py_setitem data ''members'' ms) (\<lambda>data.
       and_then (py_getitem data ''payments'') (\<lambda>pm.
       and_then (py_setitem pm member_name (JObj [])) (\<lambda>pm.
       and_then (py_setitem data ''payments'' pm) (\<lambda>data.
       save_data fs now year data)))))
     else Inr fs)))"

definition remove_member :: "store \<Rightarrow> string \<Rightarrow> int \<Rightarrow> string \<Rightarrow> store result" where
  "remove_member fs now year member_name =
     and_then (load_data fs now year) (\<lambda>data.
     and_then (py_getitem data ''members'') (\<lambda>ms.
     and_then (py_in member_name ms) (\<lambda>present.
     if present then
       and_then (py_remove ms member_name) (\<lambda>ms.
       and_then (py_setitem data ''members'' ms) (\<lambda>data.
       and_then (py_getitem data ''payments'') (\<lambda>pm.
       and_then (py_in member_name pm) (\<lambda>has_entry.
       and_then (if has_entry
                 then and_then (py_delitem pm member_name) (\<lambda>pm.
                        py_setitem data ''payments'' pm)
                 else Inr data) (\<lambda>data.
       save_data fs now year data)))))
     else Inr fs)))"

subsection \<open>Payments\<close>

definition history_entry :: "string \<Rightarrow> string \<Rightarrow> string \<Rightarrow> json \<Rightarrow> bool \<Rightarrow> json" where
  "history_entry now member_name month old_status paid =
     JObj [(''timestamp'', JStr now),
           (''member'', JStr member_name),
           (''month'', JStr month),
           (''action'', JStr (if paid then ''marked_paid'' else ''marked_unpaid'')),
           (''old_status'', old_status),
           (''new_status'', JBool paid)]"

text \<open>The block under \<^verbatim>\<open>if old_status != paid\<close>.\<close>

definition log_change :: "json \<Rightarrow> json \<Rightarrow> json result" where
  "log_change data entry =
     and_then (py_in ''payment_history'' data) (\<lambda>has_history.
     and_then (if \<not> has_history then py_setitem data ''payment_history'' (JArr [])
               else Inr data) (\<lambda>data.
     and_then (py_getitem data ''payment_history'') (\<lambda>history.
     and_then (py_append history entry) (\<lambda>history.
     py_setitem data ''payment_history'' history))))"

definition update_payment ::
  "store \<Rightarrow> string \<Rightarrow> int \<Rightarrow> string \<Rightarrow> string \<Rightarrow> bool \<Rightarrow> store result" where
  "update_payment fs now year member_name month paid =
     and_then (load_data fs now year) (\<lambda>data.
     and_then (py_getitem data ''payments'') (\<lambda>pm.
     and_then (py_in member_name pm) (\<lambda>has_entry.
     and_then (if \<not> has_entry then py_setitem pm member_name (JObj []) else Inr pm) (\<lambda>pm.
     and_then (py_getitem pm member_name) (\<lambda>flags.
     and_then (py_get flags month (JBool False)) (\<lambda>old_status.
     and_then (if \<not> py_eq_bool old_status paid
               then log_change data (history_entry now member_name month old_status paid)
               else Inr data) (\<lambda>data.
     and_then (py_setitem flags month (JBool paid)) (\<lambda>flags.
     and_then (py_setitem pm member_name flags) (\<lambda>pm.
     and_then (py_setitem data ''payments'' pm) (\<lambda>data.
     save_data fs now year data))))))))))"

text \<open>The loop \<^verbatim>\<open>for month in months: data["payments"][member_name][month] = paid\<close>.\<close>

fun set_months :: "json \<Rightarrow> string \<Rightarrow> string list \<Rightarrow> bool \<Rightarrow> json result" where
  "set_months pm member_name [] paid = Inr pm"
| "set_months pm member_name (month # months) paid =
     and_then (py_getitem pm member_name) (\<lambda>flags.
     and_then (py_setitem flags month (JBool paid)) (\<lambda>flags.
     and_then (py_setitem pm member_name flags) (\<lambda>pm.
     set_months pm member_name months paid)))"

definition bulk_update_payments ::
  "store \<Rightarrow> string \<Rightarrow> int \<Rightarrow> string \<Rightarrow> string list \<Rightarrow> bool \<Rightarrow> store result" where
  "bulk_update_payments fs now year member_name months paid =
     and_then (load_data fs now year) (\<lambda>data.
     and_then (py_getitem data ''payments'') (\<lambda>pm.
     and_then (py_in member_name pm) (\<lambda>has_entry.
     and_then (if \<not> has_entry then py_setitem pm member_name (JObj []) else Inr pm) (\<lambda>pm.
     and_then (set_months pm member_name months paid) (\<lambda>pm.
     and_then (py_setitem data ''payments'' pm) (\<lambda>data.
     save_data fs now year data))))))"

subsection \<open>History\<close>

text \<open>\<^verbatim>\<open>[h for h in history if h.get("member") == member_name]\<close>.\<close>

fun filter_member :: "string \<Rightarrow> json list \<Rightarrow> json list result" where
  "filter_member member_name [] = Inr []"
| "filter_member member_name (h # hs) =
     and_then (py_get h ''member'' JNull) (\<lambda>m.
     and_then (filter_member member_name hs) (\<lambda>rest.
     Inr (if m = JStr member_name then h # rest else rest)))"

text \<open>The sort keys \<^verbatim>\<open>x.get("timestamp", "")\<close>.\<close>

fun timestamps :: "json list \<Rightarrow> json list result" where
  "timestamps [] = Inr []"
| "timestamps (h # hs) =
     and_then (py_get h ''timestamp'' (JStr [])) (\<lambda>k.
     and_then (timestamps hs) (\<lambda>ks. Inr (k # ks)))"

definition is_str :: "json \<Rightarrow> bool" where
  "is_str x = (case x of JStr _ \<Rightarrow> True | _ \<Rightarrow> False)"

definition str_of :: "json \<Rightarrow> string" where
  "str_of x = (case x of JStr s \<Rightarrow> s | _ \<Rightarrow> [])"

text \<open>
  \<^verbatim>\<open>sorted(history, key=..., reverse=True)\<close>: a stable sort, so entries with equal keys
  keep their order. String keys are compared as strings; a list of at most one entry
  needs no comparison; keys of other types are not modelled.
\<close>

definition sorted_newest_first :: "json list \<Rightarrow> json list \<Rightarrow> json list result" where
  "sorted_newest_first keys history =
     (if list_all is_str keys
      then Inr (map snd (rev (sort_key (\<lambda>kh. str_of (fst kh)) (rev (zip keys history)))))
      else if length history \<le> 1 then Inr history
      else Inl Unmodelled)"

text \<open>\<^verbatim>\<open>xs[:limit]\<close>: a negative limit counts from the end.\<close>

definition py_slice_to :: "int \<Rightarrow> 'a list \<Rightarrow> 'a list" where
  "py_slice_to limit xs =
     (if 0 \<le> limit then take (nat limit) xs else take (length xs - nat (- limit)) xs)"

definition get_payment_history ::
  "store \<Rightarrow> string \<Rightarrow> int \<Rightarrow> string option \<Rightarrow> int option \<Rightarrow> json list result" where
  "get_payment_history fs now year member_name limit =
     and_then (load_data fs now year) (\<lambda>data.
     and_then (py_get data ''payment_history'' (JArr [])) (\<lambda>history.
     and_then (case member_name of
                 None \<Rightarrow> Inr history
               | Some name \<Rightarrow>
                   if name \<noteq> []
                   then and_then (py_iter history) (\<lambda>hs.
                        and_then (filter_member name hs) (\<lambda>hs. Inr (JArr hs)))
                   else Inr history) (\<lambda>history.
     and_then (py_iter history) (\<lambda>hs.
     and_then (timestamps hs) (\<lambda>keys.
     and_then (sorted_newest_first keys hs) (\<lambda>hs.
     Inr (case limit of
            None \<Rightarrow> hs
          | Some n \<Rightarrow> if n \<noteq> 0 then py_slice_to n hs else hs)))))))"

subsection \<open>Summary\<close>

definition months :: "string list" where
  "months = [''Jan'', ''Feb'', ''Mar'', ''Apr'', ''May'', ''Jun'',
             ''Jul'', ''Aug'', ''Sep'', ''Oct'', ''Nov'', ''Dec'']"

text \<open>The value of \<open>x\<close> as an operand of \<^verbatim>\<open>/\<close>.\<close>

definition py_number :: "json \<Rightarrow> rat result" where
  "py_number x =
     (case x of
        JInt i \<Rightarrow> Inr (of_int i)
      | JFloat r \<Rightarrow> Inr r
      | JBool b \<Rightarrow> Inr (if b then 1 else 0)
      | _ \<Rightarrow> Inl TypeError)"

text \<open>\<^verbatim>\<open>a / b\<close> on numbers.\<close>

definition py_truediv :: "rat \<Rightarrow> rat \<Rightarrow> rat result" where
  "py_truediv a b = (if b = 0 then Inl ZeroDivisionError else Inr (a / b))"

text \<open>
  \<^verbatim>\<open>payments.get(member, {})\<close> for an element \<open>member\<close> of the members: a key that is
  not a string is never among the keys of a parsed dict.
\<close>

definition member_payments_of :: "json \<Rightarrow> json \<Rightarrow> json result" where
  "member_payments_of payments member =
     (case payments of
        JObj d \<Rightarrow>
          (case member of
             JStr k \<Rightarrow> Inr (case map_of d k of None \<Rightarrow> JObj [] | Some v \<Rightarrow> v)
           | JArr _ \<Rightarrow> Inl TypeError
           | JObj _ \<Rightarrow> Inl TypeError
           | _ \<Rightarrow> Inr (JObj []))
      | _ \<Rightarrow> Inl AttributeError)"

text \<open>\<^verbatim>\<open>sum(1 for month in months if member_payments.get(month, False))\<close>.\<close>

fun count_paid :: "json \<Rightarrow> string list \<Rightarrow> nat result" where
  "count_paid member_payments [] = Inr 0"
| "count_paid member_payments (month # ms) =
     and_then (py_get member_payments month (JBool False)) (\<lambda>v.
     and_then (count_paid member_payments ms) (\<lambda>n.
     Inr ((if py_truthy v then 1 else 0) + n)))"

fun total_paid_loop :: "json \<Rightarrow> rat \<Rightarrow> json list \<Rightarrow> rat \<Rightarrow> rat result" where
  "total_paid_loop payments price_per_slot [] total_paid = Inr total_paid"
| "total_paid_loop payments price_per_slot (member # ms) total_paid =
     and_then (member_payments_of payments member) (\<lambda>member_payments.
     and_then (count_paid member_payments months) (\<lambda>months_paid.
     total_paid_loop payments price_per_slot ms
       (total_paid + of_nat months_paid * price_per_slot)))"

definition get_payment_summary :: "store \<Rightarrow> string \<Rightarrow> int \<Rightarrow> json result" where
  "get_payment_summary fs now year =
     and_then (load_data fs now year) (\<lambda>data.
     and_then (py_get data ''members'' (JArr [])) (\<lambda>members.
     and_then (py_get data ''payments'' (JObj [])) (\<lambda>payments.
     and_then (py_get data ''settings''
                 (JObj [(''total_price'', JFloat 100), (''max_slots'', JInt 10)])) (\<lambda>settings.
     if \<not> py_truthy members then
       Inr (JObj [(''total_members'', JInt 0),
                  (''total_possible_amount'', JInt 0),
                  (''total_paid_amount'', JInt 0),
                  (''total_outstanding_amount'', JInt 0),
                  (''overall_payment_rate'', JInt 0)])
     else
       and_then (py_getitem settings ''total_price'') (\<lambda>total_price.
       and_then (py_len members) (\<lambda>n.
       and_then (py_number total_price) (\<lambda>total_price.
       and_then (py_truediv total_price (of_nat n)) (\<lambda>price_per_slot.
       let total_possible = of_nat n * 12 * price_per_slot in
       and_then (py_iter members) (\<lambda>ms.
       and_then (total_paid_loop payments price_per_slot ms 0) (\<lambda>total_paid.
       and_then (if total_possible > 0
                 then and_then (py_truediv total_paid total_possible) (\<lambda>q.
                        Inr (JFloat (q * 100)))
                 else Inr (JInt 0)) (\<lambda>overall_payment_rate.
       Inr (JObj [(''total_members'', JInt (int n)),
                  (''total_possible_amount'', JFloat total_possible),
                  (''total_paid_amount'', JFloat total_paid),
                  (''total_outstanding_amount'', JFloat (total_possible - total_paid)),
                  (''overall_payment_rate'', overall_payment_rate)]))))))))))))"

subsection \<open>Backup and restore\<close>

text \<open>The loop \<^verbatim>\<open>backup_data["years"][str(year)] = self.load_data(year)\<close>.\<close>

fun backup_years ::
  "store \<Rightarrow> string \<Rightarrow> int list \<Rightarrow> (string \<times> json) list \<Rightarrow> (string \<times> json) list result" where
  "backup_years fs now [] acc = Inr acc"
| "backup_years fs now (year # ys) acc =
     and_then (load_data fs now year) (\<lambda>data.
     backup_years fs now ys (AList.update (py_str year) data acc))"

definition create_full_backup :: "store \<Rightarrow> string \<Rightarrow> jtext result" where
  "create_full_backup fs now =
     and_then (backup_years fs now (get_available_years fs) []) (\<lambda>years.
     Inr (Doc (JObj [(''backup_timestamp'', JStr now), (''years'', JObj years)])))"

text \<open>\<^verbatim>\<open>x.items()\<close>.\<close>

definition py_items :: "json \<Rightarrow> (string \<times> json) list result" where
  "py_items x = (case x of JObj d \<Rightarrow> Inr d | _ \<Rightarrow> Inl AttributeError)"

text \<open>
  The classes that \<^verbatim>\<open>except (ValueError, KeyError)\<close> catches;
  \<^verbatim>\<open>UnicodeDecodeError\<close> is a subclass of \<^verbatim>\<open>ValueError\<close>.
\<close>

definition value_or_key_error :: "py_exc \<Rightarrow> bool" where
  "value_or_key_error e = (e = ValueError \<or> e = KeyError \<or> e = UnicodeDecodeError)"

text \<open>
  The loop over \<^verbatim>\<open>backup_data["years"].items()\<close>. It returns the store as the loop left
  it, and the restored years or the exception that ended the loop.
\<close>

fun restore_years ::
  "store \<Rightarrow> string \<Rightarrow> (string \<times> json) list \<Rightarrow> int list \<Rightarrow> store \<times> int list result" where
  "restore_years fs now [] restored_years = (fs, Inr restored_years)"
| "restore_years fs now ((year_str, year_data) # rest) restored_years =
     (case py_int year_str of
        None \<Rightarrow> restore_years fs now rest restored_years
      | Some year \<Rightarrow>
          (case save_data fs now year year_data of
             Inl e \<Rightarrow> if value_or_key_error e then restore_years fs now rest restored_years
                      else (fs, Inl e)
           | Inr fs' \<Rightarrow> restore_years fs' now rest (restored_years @ [year])))"

text \<open>\<^verbatim>\<open>', '.join(xs)\<close>.\<close>

fun py_join :: "string \<Rightarrow> string list \<Rightarrow> string" where
  "py_join sep [] = []"
| "py_join sep [x] = x"
| "py_join sep (x # y # ys) = x @ sep @ py_join sep (y # ys)"

text \<open>
  The message of the result. \<open>Error_during_restore e\<close> stands for
  \<^verbatim>\<open>f"Error during restore: {str(e)}"\<close>, whose wording after the colon is the interpreter's.
\<close>

datatype message = Message string | Error_during_restore py_exc

definition restore_from_backup :: "store \<Rightarrow> string \<Rightarrow> jtext \<Rightarrow> store \<times> bool \<times> message" where
  "restore_from_backup fs now backup_json =
     (case backup_json of
        Garbled \<Rightarrow> (fs, False, Message ''Invalid JSON format'')
      | Doc backup_data \<Rightarrow>
          (case py_in ''years'' backup_data of
             Inl e \<Rightarrow> (fs, False, Error_during_restore e)
           | Inr False \<Rightarrow> (fs, False, Message ''Invalid backup format: missing 'years' key'')
           | Inr True \<Rightarrow>
               (case and_then (py_getitem backup_data ''years'') py_items of
                  Inl e \<Rightarrow> (fs, False, Error_during_restore e)
                | Inr entries \<Rightarrow>
                    (case restore_years fs now entries [] of
                       (fs', Inl e) \<Rightarrow> (fs', False, Error_during_restore e)
                     | (fs', Inr restored_years) \<Rightarrow>
                         if restored_years \<noteq> []
                         then (fs', True,
                               Message (''Successfully restored ''
                                 @ py_str (int (length restored_years)) @ '' year(s): ''
                                 @ py_join '', '' (map py_str restored_years)))
                         else (fs', False, Message ''No valid year data found in backup'')))))"

subsection \<open>Reading the model\<close>

text \<open>The value under key \<open>k\<close> of a dict, if there is one.\<close>

definition field :: "string \<Rightarrow> json \<Rightarrow> json option" where
  "field k x = (case x of JObj d \<Rightarrow> map_of d k | _ \<Rightarrow> None)"

text \<open>The record that the file of a year holds.\<close>

definition stored_record :: "store \<Rightarrow> int \<Rightarrow> json option" where
  "stored_record fs year =
     (case map_of fs (get_data_file_path year) of
        Some (Text (Doc j)) \<Rightarrow> Some j
      | _ \<Rightarrow> None)"

text \<open>
  What the specification asks of the bulk operation: \<^verbatim>\<open>update_payment\<close> for each month,
  in order.
\<close>

fun update_payment_each ::
  "store \<Rightarrow> string \<Rightarrow> int \<Rightarrow> string \<Rightarrow> string list \<Rightarrow> bool \<Rightarrow> store result" where
  "update_payment_each fs now year member_name [] paid = Inr fs"
| "update_payment_each fs now year member_name (month # ms) paid =
     and_then (update_payment fs now year member_name month paid) (\<lambda>fs'.
     update_payment_each fs' now year member_name ms paid)"

text \<open>The value under key \<open>k\<close> of the record that a year holds after an operation.\<close>

definition result_field :: "store result \<Rightarrow> int \<Rightarrow> string \<Rightarrow> json option" where
  "result_field r year k =
     (case r of
        Inl e \<Rightarrow> None
      | Inr fs \<Rightarrow> (case stored_record fs year of None \<Rightarrow> None | Some j \<Rightarrow> field k j))"

text \<open>A history entry as the sort needs it: a dict whose timestamp, if any, is a string.\<close>

definition entry_ok :: "json \<Rightarrow> bool" where
  "entry_ok h =
     (case h of
        JObj d \<Rightarrow> (case map_of d ''timestamp'' of None \<Rightarrow> True | Some v \<Rightarrow> is_str v)
      | _ \<Rightarrow> False)"

definition timestamp_of :: "json \<Rightarrow> string" where
  "timestamp_of h = (case field ''timestamp'' h of None \<Rightarrow> [] | Some v \<Rightarrow> str_of v)"

text \<open>The entries that a member filter selects; no filter and the empty name select all.\<close>

definition selected :: "string option \<Rightarrow> json \<Rightarrow> bool" where
  "selected member_name h =
     (case member_name of
        None \<Rightarrow> True
      | Some name \<Rightarrow> name = [] \<or> field ''member'' h = Some (JStr name))"

text \<open>The stored flag of a member and a month, and the flag as the code reads it.\<close>

definition flag_of :: "json \<Rightarrow> string \<Rightarrow> string \<Rightarrow> json option" where
  "flag_of data member_name month =
     (case field ''payments'' data of
        None \<Rightarrow> None
      | Some pm \<Rightarrow> (case field member_name pm of None \<Rightarrow> None | Some flags \<Rightarrow> field month flags))"

definition current_flag :: "json \<Rightarrow> string \<Rightarrow> string \<Rightarrow> bool" where
  "current_flag data member_name month =
     (case flag_of data member_name month of Some (JBool b) \<Rightarrow> b | _ \<Rightarrow> False)"

definition history_of :: "json \<Rightarrow> json list" where
  "history_of data = (case field ''payment_history'' data of Some (JArr hs) \<Rightarrow> hs | _ \<Rightarrow> [])"

text \<open>
  The shape of a year record, as far as the operations on members and payments depend
  on it: the members are a list of names, the payments map names to dicts of boolean
  flags, and the history, which files written before there was one may lack, is a list of
  entries.
\<close>

definition is_bool :: "json \<Rightarrow> bool" where
  "is_bool x = (case x of JBool _ \<Rightarrow> True | _ \<Rightarrow> False)"

definition flags_ok :: "json \<Rightarrow> bool" where
  "flags_ok x = (case x of JObj fl \<Rightarrow> list_all (\<lambda>kv. is_bool (snd kv)) fl | _ \<Rightarrow> False)"

definition year_record :: "json \<Rightarrow> bool" where
  "year_record data =
     (case data of
        JObj d \<Rightarrow>
          (case map_of d ''members'' of Some (JArr ms) \<Rightarrow> list_all is_str ms | _ \<Rightarrow> False)
          \<and> (case map_of d ''payments'' of
                Some (JObj pm) \<Rightarrow> list_all (\<lambda>kv. flags_ok (snd kv)) pm
              | _ \<Rightarrow> False)
          \<and> (case map_of d ''payment_history'' of
                None \<Rightarrow> True
              | Some (JArr hs) \<Rightarrow> list_all entry_ok hs
              | Some _ \<Rightarrow> False)
      | _ \<Rightarrow> False)"

text \<open>The flags that the payments \<open>pm\<close> hold for a member: none when there is no entry.\<close>

definition flags_in :: "(string \<times> json) list \<Rightarrow> string \<Rightarrow> (string \<times> json) list" where
  "flags_in pm member_name = (case map_of pm member_name of Some (JObj fl) \<Rightarrow> fl | _ \<Rightarrow> [])"

text \<open>The names with a payments entry, and the invariant that every member has one.\<close>

definition payment_keys :: "json \<Rightarrow> string set" where
  "payment_keys data =
     (case field ''payments'' data of Some (JObj pm) \<Rightarrow> fst ` set pm | _ \<Rightarrow> {})"

definition has_entry :: "(string \<times> json) list \<Rightarrow> json \<Rightarrow> bool" where
  "has_entry pm m = (case m of JStr k \<Rightarrow> map_of pm k \<noteq> None | _ \<Rightarrow> False)"

definition members_have_payments :: "json \<Rightarrow> bool" where
  "members_have_payments data =
     (case field ''members'' data of
        Some (JArr ms) \<Rightarrow>
          (case field ''payments'' data of
             Some (JObj pm) \<Rightarrow> list_all (has_entry pm) ms
           | _ \<Rightarrow> False)
      | _ \<Rightarrow> False)"

text \<open>The entries of the \<^verbatim>\<open>years\<close> of a backup whose key \<^verbatim>\<open>int\<close> accepts.\<close>

definition coercible :: "string \<times> json \<Rightarrow> bool" where
  "coercible kv = (py_int (fst kv) \<noteq> None)"

text \<open>A parsed backup with a top-level \<^verbatim>\<open>years\<close> key.\<close>

definition has_years_key :: "json \<Rightarrow> bool" where
  "has_years_key x = (case x of JObj d \<Rightarrow> map_of d ''years'' \<noteq> None | _ \<Rightarrow> False)"

subsection \<open>An example store\<close>

text \<open>Year 2024 with two members, one paid month and the history entry of that payment.\<close>

definition example_record :: json where
  "example_record =
     JObj [(''year'', JInt 2024),
           (''members'', JArr [JStr ''Alice'', JStr ''Bob'']),
           (''payments'', JObj [(''Alice'', JObj [(''Jan'', JBool True)]), (''Bob'', JObj [])]),
           (''payment_history'',
              JArr [history_entry ''2024-01-05T10:00:00'' ''Alice'' ''Jan'' (JBool False) True]),
           (''settings'', JObj [(''total_price'', JFloat 100), (''max_slots'', JInt 10)]),
           (''created_at'', JStr ''2024-01-01T09:00:00''),
           (''updated_at'', JStr ''2024-01-05T10:00:00'')]"

definition example_store :: store where
  "example_store = [(''subscription_data_2024.json'', Text (Doc example_record))]"

text \<open>A store whose one file, that of 2024, holds bytes that are not UTF-8.\<close>

definition corrupt_store :: store where
  "corrupt_store = [(''subscription_data_2024.json'', Undecodable)]"

text \<open>
  A store in which the file of 2023 holds a JSON list and the file of 2024 the example
  record, and the backup that \<^verbatim>\<open>create_full_backup\<close> makes of it.
\<close>

definition mixed_store :: store where
  "mixed_store = [(''subscription_data_2024.json'', Text (Doc example_record)),
                  (''subscription_data_2023.json'', Text (Doc (JArr [])))]"

definition mixed_backup :: jtext where
  "mixed_backup =
     Doc (JObj [(''backup_timestamp'', JStr ''2024-03-01T12:00:00''),
                (''years'', JObj [(''2023'', JArr []), (''2024'', example_record)])])"

section \<open>Properties\<close>

subsection \<open>Basic facts\<close>

lemma and_then_Inr [simp]: "and_then (Inr v) f = f v"
  by (simp add: and_then_def)

lemma and_then_Inl [simp]: "and_then (Inl e) f = Inl e"
  by (simp add: and_then_def)

lemma path_2024: "get_data_file_path 2024 = ''subscription_data_2024.json''"
  by code_simp

lemma load_example: "load_data example_store now 2024 = Inr example_record"
  by (simp add: load_data_def example_store_def path_2024)

subsection \<open>Loading a year\<close>

lemma load_data_missing:
  "map_of fs (get_data_file_path year) = None \<Longrightarrow>
     load_data fs now year = Inr (default_record now year)"
  by (simp add: load_data_def)

lemma load_data_garbled:
  "map_of fs (get_data_file_path year) = Some (Text Garbled) \<Longrightarrow>
     load_data fs now year = Inr (default_record now year)"
  by (simp add: load_data_def)

text \<open>
  C5. A year whose file is missing, or holds text that is not JSON, loads as the default
  record: no members, no payments, no history, a total price of 100.0 and 10 slots. The
  claim says the same of every malformed content and that the load never raises. It does
  raise when the bytes of the file are not UTF-8: the \<^verbatim>\<open>except\<close> clause does not name
  \<^verbatim>\<open>UnicodeDecodeError\<close>, although the comment below it promises the default for a
  corrupted file.
\<close>

theorem load_data_undecodable:
  "load_data [(''subscription_data_2024.json'', Undecodable)] now 2024 = Inl UnicodeDecodeError"
  by (simp add: load_data_def path_2024)

subsection \<open>Summary\<close>

text \<open>
  C6. For a year whose record has an empty members list, the summary is returned (so no
  division by zero is raised) and all five of its numbers are the integer zero.
\<close>

theorem summary_no_members:
  assumes "load_data fs now year = Inr data"
      and "field ''members'' data = Some (JArr [])"
  shows "get_payment_summary fs now year =
           Inr (JObj [(''total_members'', JInt 0),
                      (''total_possible_amount'', JInt 0),
                      (''total_paid_amount'', JInt 0),
                      (''total_outstanding_amount'', JInt 0),
                      (''overall_payment_rate'', JInt 0)])"
  using assms
  by (cases data) (simp_all add: get_payment_summary_def field_def py_get_def py_truthy_def)

theorem summary_no_members_witness:
  "load_data [] ''2024-03-01T12:00:00'' 2024 = Inr (default_record ''2024-03-01T12:00:00'' 2024)
   \<and> field ''members'' (default_record ''2024-03-01T12:00:00'' 2024) = Some (JArr [])
   \<and> get_payment_summary [] ''2024-03-01T12:00:00'' 2024 =
           Inr (JObj [(''total_members'', JInt 0),
                      (''total_possible_amount'', JInt 0),
                      (''total_paid_amount'', JInt 0),
                      (''total_outstanding_amount'', JInt 0),
                      (''overall_payment_rate'', JInt 0)])"
proof -
  have l: "load_data [] ''2024-03-01T12:00:00'' 2024 = Inr (default_record ''2024-03-01T12:00:00'' 2024)"
    by (simp add: load_data_def)
  have m: "field ''members'' (default_record ''2024-03-01T12:00:00'' 2024) = Some (JArr [])"
    by (simp add: field_def default_record_def)
  show ?thesis using l m summary_no_members [OF l m] by simp
qed

subsection \<open>History\<close>

lemma filter_member_ok:
  "list_all entry_ok hs \<Longrightarrow>
     filter_member name hs = Inr (filter (\<lambda>h. field ''member'' h = Some (JStr name)) hs)"
  by (induction hs)
     (auto simp: entry_ok_def py_get_def field_def split: json.splits option.splits)

lemma timestamps_ok:
  "list_all entry_ok hs \<Longrightarrow> timestamps hs = Inr (map (\<lambda>h. JStr (timestamp_of h)) hs)"
  by (induction hs)
     (auto simp: entry_ok_def py_get_def field_def timestamp_of_def is_str_def str_of_def
           split: json.splits option.splits)

lemma sorted_newest_first_ok:
  fixes hs :: "json list"
  defines "ks \<equiv> map (\<lambda>h. JStr (timestamp_of h)) hs"
  shows "\<exists>out. sorted_newest_first ks hs = Inr out \<and> mset out = mset hs
            \<and> sorted (rev (map timestamp_of out))"
proof -
  let ?f = "\<lambda>kh::json \<times> json. str_of (fst kh)"
  let ?zs = "zip ks hs"
  let ?S = "sort_key ?f (rev ?zs)"
  have len: "length ks = length hs" by (simp add: ks_def)
  have all: "list_all is_str ks" by (simp add: ks_def list_all_iff is_str_def)
  have out: "sorted_newest_first ks hs = Inr (map snd (rev ?S))"
    using all by (simp add: sorted_newest_first_def)
  have "mset (map snd (rev ?S)) = mset (map snd ?zs)"
    by (simp add: mset_rev)
  also have "\<dots> = mset hs" using len by simp
  finally have m: "mset (map snd (rev ?S)) = mset hs" .
  have key: "timestamp_of (snd kh) = ?f kh" if "kh \<in> set ?zs" for kh
  proof -
    from that obtain i where "i < length hs" "kh = (ks ! i, hs ! i)"
      using len by (auto simp: set_zip)
    then show ?thesis by (simp add: ks_def str_of_def)
  qed
  have "rev (map timestamp_of (map snd (rev ?S))) = map (\<lambda>kh. timestamp_of (snd kh)) ?S"
    by (simp add: rev_map)
  also have "\<dots> = map ?f ?S"
    by (rule map_cong) (simp_all add: key)
  finally have "sorted (rev (map timestamp_of (map snd (rev ?S))))"
    by (simp only: sorted_sort_key)
  with out m show ?thesis by blast
qed

lemma filter_selected:
  "filter (selected m) hs =
     (case m of None \<Rightarrow> hs
      | Some name \<Rightarrow> if name \<noteq> []
          then filter (\<lambda>h. field ''member'' h = Some (JStr name)) hs else hs)"
  by (induction hs) (auto simp: selected_def split: option.splits)

text \<open>
  C9. For a year with a non-empty payment history, \<^verbatim>\<open>get_payment_history\<close> with limit 0
  returns what it returns with no limit: every entry that the member filter selects,
  newest first, none cut off; without a filter the result is not empty.
\<close>

theorem history_limit_zero:
  assumes "load_data fs now year = Inr data"
      and "field ''payment_history'' data = Some (JArr hs)"
      and "hs \<noteq> []"
      and "list_all entry_ok hs"
  shows "\<exists>out. get_payment_history fs now year m (Some 0) = Inr out
             \<and> get_payment_history fs now year m None = Inr out
             \<and> mset out = mset (filter (selected m) hs)
             \<and> sorted (rev (map timestamp_of out))
             \<and> (m = None \<longrightarrow> out \<noteq> [])"
proof -
  let ?sel = "filter (selected m) hs"
  have ok: "list_all entry_ok ?sel"
    using assms(4) by (simp add: list_all_iff)
  obtain d where d: "data = JObj d" "map_of d ''payment_history'' = Some (JArr hs)"
    using assms(2) by (cases data) (simp_all add: field_def)
  have filt: "and_then (case m of None \<Rightarrow> Inr (JArr hs)
                 | Some name \<Rightarrow> if name \<noteq> []
                     then and_then (py_iter (JArr hs)) (\<lambda>hs.
                          and_then (filter_member name hs) (\<lambda>hs. Inr (JArr hs)))
                     else Inr (JArr hs)) k = k (JArr ?sel)"
    for k :: "json \<Rightarrow> json list result"
    using assms(4)
    by (cases m) (simp_all add: filter_selected py_iter_def filter_member_ok)
  obtain out where out:
      "sorted_newest_first (map (\<lambda>h. JStr (timestamp_of h)) ?sel) ?sel = Inr out"
      "mset out = mset ?sel" "sorted (rev (map timestamp_of out))"
    using sorted_newest_first_ok[of ?sel] by blast
  have "get_payment_history fs now year m lim = Inr out" if "lim = Some 0 \<or> lim = None" for lim
    using that assms(1) d out(1) ok
    by (auto simp add: get_payment_history_def py_get_def filt py_iter_def timestamps_ok)
  moreover have "m = None \<longrightarrow> out \<noteq> []"
    using out(2) assms(3) by (auto simp: selected_def)
  ultimately show ?thesis using out by blast
qed

theorem history_limit_zero_witness:
  "load_data example_store ''2024-03-01T12:00:00'' 2024 = Inr example_record
   \<and> field ''payment_history'' example_record =
        Some (JArr [history_entry ''2024-01-05T10:00:00'' ''Alice'' ''Jan'' (JBool False) True])
   \<and> list_all entry_ok [history_entry ''2024-01-05T10:00:00'' ''Alice'' ''Jan'' (JBool False) True]
   \<and> get_payment_history example_store ''2024-03-01T12:00:00'' 2024 None (Some 0) =
        Inr [history_entry ''2024-01-05T10:00:00'' ''Alice'' ''Jan'' (JBool False) True]"
proof -
  let ?e = "history_entry ''2024-01-05T10:00:00'' ''Alice'' ''Jan'' (JBool False) True"
  have f: "field ''payment_history'' example_record = Some (JArr [?e])"
    by (simp add: field_def example_record_def)
  have e: "list_all entry_ok [?e]"
    by (simp add: entry_ok_def history_entry_def is_str_def)
  obtain out where "get_payment_history example_store ''2024-03-01T12:00:00'' 2024 None (Some 0) = Inr out"
      and "mset out = mset (filter (selected None) [?e])"
    using history_limit_zero [OF load_example f _ e, where m = None] by auto
  then show ?thesis using f e load_example by (simp add: selected_def)
qed

subsection \<open>Payments\<close>

lemma list_all_update:
  "list_all P al \<Longrightarrow> P (k, v) \<Longrightarrow> list_all P (AList.update k v al)"
  by (induction al) auto

lemma map_of_list_all:
  "list_all P al \<Longrightarrow> map_of al k = Some v \<Longrightarrow> P (k, v)"
  by (induction al) (auto split: if_splits)

lemma year_record_obj: "year_record data \<Longrightarrow> \<exists>d. data = JObj d"
  by (cases data) (simp_all add: year_record_def)

lemma year_record_members:
  assumes "year_record (JObj d)"
  shows "\<exists>ms. map_of d ''members'' = Some (JArr ms) \<and> list_all is_str ms"
  using assms
  by (cases "map_of d ''members''"; cases "the (map_of d ''members'')")
     (simp_all add: year_record_def)

lemma year_record_payments:
  assumes "year_record (JObj d)"
  shows "\<exists>pm. map_of d ''payments'' = Some (JObj pm) \<and> list_all (\<lambda>kv. flags_ok (snd kv)) pm"
  using assms
  by (cases "map_of d ''payments''"; cases "the (map_of d ''payments'')")
     (simp_all add: year_record_def)

lemma year_record_history:
  assumes "year_record (JObj d)"
  shows "(map_of d ''payment_history'' = None \<and> history_of (JObj d) = [])
     \<or> (map_of d ''payment_history'' = Some (JArr (history_of (JObj d)))
         \<and> list_all entry_ok (history_of (JObj d)))"
  using assms
  by (cases "map_of d ''payment_history''"; cases "the (map_of d ''payment_history'')")
     (simp_all add: year_record_def history_of_def field_def)

lemma entry_lookup:
  assumes "list_all (\<lambda>kv. flags_ok (snd kv)) pm"
  obtains "map_of pm member = None"
  | fl where "map_of pm member = Some (JObj fl)" "list_all (\<lambda>kv. is_bool (snd kv)) fl"
proof (cases "map_of pm member")
  case None then show ?thesis using that by simp
next
  case (Some v)
  with assms have "flags_ok v" using map_of_list_all[of "\<lambda>kv. flags_ok (snd kv)" pm member v] by simp
  then show ?thesis using Some that by (auto simp: flags_ok_def split: json.splits)
qed

lemma flag_lookup:
  assumes "list_all (\<lambda>kv. is_bool (snd kv)) fl"
  obtains "map_of fl month = None"
  | b where "map_of fl month = Some (JBool b)"
proof (cases "map_of fl month")
  case None then show ?thesis using that by simp
next
  case (Some v)
  with assms have "is_bool v" using map_of_list_all[of "\<lambda>kv. is_bool (snd kv)" fl month v] by simp
  then show ?thesis using Some that by (auto simp: is_bool_def split: json.splits)
qed

lemma update_payment_effect:
  fixes member month :: string and paid :: bool and now :: string
  assumes l: "load_data fs now year = Inr (JObj d)"
      and yr: "year_record (JObj d)"
      and pm: "map_of d ''payments'' = Some (JObj pm)"
  defines "fl \<equiv> flags_in pm member"
  defines "old \<equiv> (case map_of fl month of Some (JBool b) \<Rightarrow> b | _ \<Rightarrow> False)"
  defines "hs \<equiv> history_of (JObj d)"
  defines "d1 \<equiv> (if old = paid then d
                  else AList.update ''payment_history''
                         (JArr (hs @ [history_entry now member month (JBool old) paid])) d)"
  shows "update_payment fs now year member month paid =
           Inr (write_file fs (get_data_file_path year)
                  (Text (Doc (JObj (AList.update ''updated_at'' (JStr now)
                     (AList.update ''payments''
                        (JObj (AList.update member (JObj (AList.update month (JBool paid) fl)) pm))
                        d1))))))"
proof -
  have pmok: "list_all (\<lambda>kv. flags_ok (snd kv)) pm"
    using pm year_record_payments[OF yr] by auto
  have hist: "(map_of d ''payment_history'' = None \<and> hs = [])
      \<or> map_of d ''payment_history'' = Some (JArr hs)"
    unfolding hs_def using year_record_history[OF yr] by auto
  show ?thesis
  proof (cases rule: entry_lookup[OF pmok, of member])
    case 1
    then have fl: "fl = []" by (simp add: fl_def flags_in_def)
    then have old: "old = False" by (simp add: old_def)
    show ?thesis using l pm 1 hist
      by (auto simp add: update_payment_def py_getitem_def py_in_def py_setitem_def py_get_def
            py_eq_bool_def log_change_def py_append_def save_data_def d1_def fl old
            AList.update_conv')
  next
    case (2 fl')
    then have fl: "fl = fl'" by (simp add: fl_def flags_in_def)
    show ?thesis
    proof (cases rule: flag_lookup[OF 2(2), of month])
      case 1
      then have old: "old = False" by (simp add: old_def fl)
      show ?thesis using l pm 2(1) 1 hist
        by (auto simp add: update_payment_def py_getitem_def py_in_def py_setitem_def py_get_def
            py_eq_bool_def log_change_def py_append_def save_data_def d1_def fl old
            AList.update_conv')
    next
      case (2 b)
      then have old: "old = b" by (simp add: old_def fl)
      show ?thesis using l pm \<open>map_of pm member = Some (JObj fl')\<close> 2 hist
        by (auto simp add: update_payment_def py_getitem_def py_in_def py_setitem_def py_get_def
            py_eq_bool_def log_change_def py_append_def save_data_def d1_def fl old
            AList.update_conv')
    qed
  qed
qed


lemma stored_record_write:
  "stored_record (write_file fs (get_data_file_path year) (Text (Doc j))) year = Some j"
  by (simp add: stored_record_def write_file_def AList.update_conv')

lemma load_data_stored:
  "stored_record fs year = Some j \<Longrightarrow> load_data fs now year = Inr j"
  by (auto simp: stored_record_def load_data_def split: option.splits content.splits jtext.splits)

lemma field_update:
  "field k (JObj (AList.update k' v d)) = (if k = k' then Some v else field k (JObj d))"
  by (simp add: field_def AList.update_conv')

lemma flags_ok_update:
  "list_all (\<lambda>kv. is_bool (snd kv)) fl \<Longrightarrow> flags_ok (JObj (AList.update month (JBool paid) fl))"
  by (simp add: flags_ok_def list_all_update is_bool_def)

lemma flags_in_ok:
  "list_all (\<lambda>kv. flags_ok (snd kv)) pm \<Longrightarrow> list_all (\<lambda>kv. is_bool (snd kv)) (flags_in pm member)"
  by (rule entry_lookup[of pm member]) (simp_all add: flags_in_def)

lemma update_payment_result:
  fixes member month :: string and paid :: bool and now :: string
  assumes l: "load_data fs now year = Inr data" and yr: "year_record data"
  shows "\<exists>data'.
           update_payment fs now year member month paid =
             Inr (write_file fs (get_data_file_path year) (Text (Doc data')))
         \<and> year_record data'
         \<and> flag_of data' member month = Some (JBool paid)
         \<and> field ''members'' data' = field ''members'' data
         \<and> payment_keys data' = insert member (payment_keys data)
         \<and> history_of data' =
             (if current_flag data member month = paid then history_of data
              else history_of data @
                   [history_entry now member month (JBool (current_flag data member month)) paid])"
proof -
  from yr obtain d where d: "data = JObj d" using year_record_obj by blast
  from yr d obtain pm where pm: "map_of d ''payments'' = Some (JObj pm)"
      and pmok: "list_all (\<lambda>kv. flags_ok (snd kv)) pm"
    using year_record_payments by blast
  from yr d obtain ms where ms: "map_of d ''members'' = Some (JArr ms)" "list_all is_str ms"
    using year_record_members by blast
  define fl where "fl = flags_in pm member"
  define old where "old = (case map_of fl month of Some (JBool b) \<Rightarrow> b | _ \<Rightarrow> False)"
  define hs where "hs = history_of (JObj d)"
  define e where "e = history_entry now member month (JBool old) paid"
  define d1 where "d1 = (if old = paid then d
                  else AList.update ''payment_history'' (JArr (hs @ [e])) d)"
  define pm' where "pm' = AList.update member (JObj (AList.update month (JBool paid) fl)) pm"
  define data' where "data' = JObj (AList.update ''updated_at'' (JStr now)
                     (AList.update ''payments'' (JObj pm') d1))"
  have flok: "list_all (\<lambda>kv. is_bool (snd kv)) fl"
    unfolding fl_def by (rule flags_in_ok[OF pmok])
  have eff: "update_payment fs now year member month paid =
             Inr (write_file fs (get_data_file_path year) (Text (Doc data')))"
    using update_payment_effect[OF l[unfolded d] yr[unfolded d] pm, of member month paid]
    by (simp add: data'_def pm'_def d1_def e_def hs_def old_def fl_def)
  have cur: "current_flag data member month = old"
  proof (cases rule: entry_lookup[OF pmok, of member])
    case 1
    then show ?thesis
      by (simp add: current_flag_def flag_of_def field_def d pm old_def fl_def flags_in_def)
  next
    case (2 fl')
    then show ?thesis
      by (simp add: current_flag_def flag_of_def field_def d pm old_def fl_def flags_in_def)
  qed
  have hist: "(map_of d ''payment_history'' = None \<and> hs = [])
     \<or> (map_of d ''payment_history'' = Some (JArr hs) \<and> list_all entry_ok hs)"
    unfolding hs_def using year_record_history[OF yr[unfolded d]] by simp
  have eok: "entry_ok e"
    by (simp add: e_def history_entry_def entry_ok_def is_str_def)
  have h': "history_of data' = (if old = paid then hs else hs @ [e])"
    using hist by (auto simp: data'_def d1_def history_of_def field_def AList.update_conv' hs_def)
  have yr': "year_record data'"
    using ms hist pmok flok eok
    by (auto simp: data'_def d1_def year_record_def AList.update_conv' pm'_def
          list_all_update flags_ok_update)
  have fo: "flag_of data' member month = Some (JBool paid)"
    by (simp add: data'_def flag_of_def field_def AList.update_conv' pm'_def)
  have mem: "field ''members'' data' = field ''members'' data"
    by (simp add: data'_def d1_def d field_def AList.update_conv')
  have keys: "payment_keys data' = insert member (payment_keys data)"
    by (simp add: data'_def d payment_keys_def field_def AList.update_conv' pm pm'_def
          AList.dom_update)
  show ?thesis
    using eff yr' fo mem keys h' cur by (auto simp: d hs_def e_def)
qed

lemma year_record_example: "year_record example_record"
  by (simp add: year_record_def example_record_def flags_ok_def is_bool_def is_str_def
        entry_ok_def history_entry_def)

lemma members_have_payments_example: "members_have_payments example_record"
  by (simp add: members_have_payments_def example_record_def field_def has_entry_def)

text \<open>
  C4. \<^verbatim>\<open>update_payment\<close> on a year record reads the current flag (false when unset),
  writes the new flag in every case, and appends a history entry exactly when the flag
  changes; the entry names the member and the month, has the action \<^verbatim>\<open>marked_paid\<close> for
  \<open>paid\<close> and \<^verbatim>\<open>marked_unpaid\<close> otherwise, and records the old and the new status. A
  second call with the same member, month and value succeeds and appends nothing, so the
  two calls append at most one entry.
\<close>

theorem update_payment_logs_changes:
  assumes "load_data fs now year = Inr data" and "year_record data"
  shows "\<exists>fs' data' fs'' data''.
           update_payment fs now year member month paid = Inr fs'
         \<and> stored_record fs' year = Some data'
         \<and> flag_of data' member month = Some (JBool paid)
         \<and> (current_flag data member month = paid \<longrightarrow> history_of data' = history_of data)
         \<and> (current_flag data member month \<noteq> paid \<longrightarrow>
              (\<exists>e. history_of data' = history_of data @ [e]
                 \<and> field ''member'' e = Some (JStr member)
                 \<and> field ''month'' e = Some (JStr month)
                 \<and> field ''action'' e = Some (JStr (if paid then ''marked_paid'' else ''marked_unpaid''))
                 \<and> field ''old_status'' e = Some (JBool (current_flag data member month))
                 \<and> field ''new_status'' e = Some (JBool paid)))
         \<and> update_payment fs' now' year member month paid = Inr fs''
         \<and> stored_record fs'' year = Some data''
         \<and> flag_of data'' member month = Some (JBool paid)
         \<and> history_of data'' = history_of data'"
proof -
  let ?p = "get_data_file_path year"
  obtain data' where 1:
      "update_payment fs now year member month paid = Inr (write_file fs ?p (Text (Doc data')))"
      "year_record data'" "flag_of data' member month = Some (JBool paid)"
      "history_of data' =
             (if current_flag data member month = paid then history_of data
              else history_of data @
                   [history_entry now member month (JBool (current_flag data member month)) paid])"
    using update_payment_result[OF assms, of member month paid] by blast
  let ?fs' = "write_file fs ?p (Text (Doc data'))"
  have l': "load_data ?fs' now' year = Inr data'"
    by (rule load_data_stored) (rule stored_record_write)
  have c': "current_flag data' member month = paid"
    using 1(3) by (simp add: current_flag_def)
  obtain data'' where 2:
      "update_payment ?fs' now' year member month paid = Inr (write_file ?fs' ?p (Text (Doc data'')))"
      "flag_of data'' member month = Some (JBool paid)"
      "history_of data'' = history_of data'"
    using update_payment_result[OF l' 1(2), of member month paid] c' by auto
  have e: "field ''member'' (history_entry now member month old paid) = Some (JStr member)
         \<and> field ''month'' (history_entry now member month old paid) = Some (JStr month)
         \<and> field ''action'' (history_entry now member month old paid)
             = Some (JStr (if paid then ''marked_paid'' else ''marked_unpaid''))
         \<and> field ''old_status'' (history_entry now member month old paid) = Some old
         \<and> field ''new_status'' (history_entry now member month old paid) = Some (JBool paid)"
    for old
    by (simp add: history_entry_def field_def)
  show ?thesis
    using 1 2 e stored_record_write by (intro exI[of _ ?fs'] exI[of _ data'] exI[of _ "write_file ?fs' ?p (Text (Doc data''))"] exI[of _ data'']) simp
qed


theorem update_payment_logs_changes_witness:
  "load_data example_store ''2024-03-01T12:00:00'' 2024 = Inr example_record
   \<and> year_record example_record
   \<and> current_flag example_record ''Bob'' ''Feb'' \<noteq> True
   \<and> (\<exists>fs' data' fs'' data''.
           update_payment example_store ''2024-03-01T12:00:00'' 2024 ''Bob'' ''Feb'' True = Inr fs'
         \<and> stored_record fs' 2024 = Some data'
         \<and> flag_of data' ''Bob'' ''Feb'' = Some (JBool True)
         \<and> (\<exists>e. history_of data' = history_of example_record @ [e]
                 \<and> field ''action'' e = Some (JStr ''marked_paid'')
                 \<and> field ''old_status'' e = Some (JBool False)
                 \<and> field ''new_status'' e = Some (JBool True))
         \<and> update_payment fs' ''2024-03-01T12:00:05'' 2024 ''Bob'' ''Feb'' True = Inr fs''
         \<and> stored_record fs'' 2024 = Some data''
         \<and> history_of data'' = history_of data')"
proof -
  have c: "current_flag example_record ''Bob'' ''Feb'' = False"
    by (simp add: current_flag_def flag_of_def field_def example_record_def)
  show ?thesis
    using update_payment_logs_changes [OF load_example year_record_example,
        of "''2024-03-01T12:00:00''" "''Bob''" "''Feb''" True "''2024-03-01T12:00:05''"]
      load_example year_record_example c
    by (simp only: c simp_thms if_True if_False) blast
qed

lemma set_months_ok:
  "map_of pm member = Some (JObj fl) \<Longrightarrow>
     set_months (JObj pm) member ms paid =
       Inr (JObj (AList.update member (JObj (fold (\<lambda>m. AList.update m (JBool paid)) ms fl)) pm))"
proof (induction ms arbitrary: pm fl)
  case Nil
  then show ?case by (simp add: AList.update_triv)
next
  case (Cons m ms)
  let ?fl = "AList.update m (JBool paid) fl"
  let ?pm = "AList.update member (JObj ?fl) pm"
  have "map_of ?pm member = Some (JObj ?fl)" by (simp add: AList.update_conv')
  from Cons.IH[OF this] Cons.prems show ?case
    by (simp add: py_getitem_def py_setitem_def)
qed

lemma fold_update_ok:
  "list_all (\<lambda>kv. is_bool (snd kv)) fl \<Longrightarrow>
     list_all (\<lambda>kv. is_bool (snd kv)) (fold (\<lambda>m. AList.update m (JBool paid)) ms fl)"
  by (induction ms arbitrary: fl) (simp_all add: list_all_update is_bool_def)

lemma fold_update_lookup:
  "map_of (fold (\<lambda>m. AList.update m (JBool paid)) ms fl) k =
     (if k \<in> set ms then Some (JBool paid) else map_of fl k)"
  by (induction ms arbitrary: fl) (auto simp: AList.update_conv')

lemma bulk_update_payments_result:
  fixes member :: string and paid :: bool and now :: string
  assumes l: "load_data fs now year = Inr data" and yr: "year_record data"
  shows "\<exists>data'.
           bulk_update_payments fs now year member ms paid =
             Inr (write_file fs (get_data_file_path year) (Text (Doc data')))
         \<and> year_record data'
         \<and> (\<forall>m \<in> set ms. flag_of data' member m = Some (JBool paid))
         \<and> (\<forall>m. m \<notin> set ms \<longrightarrow> flag_of data' member m = flag_of data member m)
         \<and> field ''members'' data' = field ''members'' data
         \<and> payment_keys data' = insert member (payment_keys data)
         \<and> field ''payment_history'' data' = field ''payment_history'' data"
proof -
  from yr obtain d where d: "data = JObj d" using year_record_obj by blast
  from yr d obtain pm where pm: "map_of d ''payments'' = Some (JObj pm)"
      and pmok: "list_all (\<lambda>kv. flags_ok (snd kv)) pm"
    using year_record_payments by blast
  from yr d obtain mems where mems: "map_of d ''members'' = Some (JArr mems)" "list_all is_str mems"
    using year_record_members by blast
  define fl where "fl = flags_in pm member"
  define fl' where "fl' = fold (\<lambda>m. AList.update m (JBool paid)) ms fl"
  define pm' where "pm' = AList.update member (JObj fl') pm"
  define data' where "data' = JObj (AList.update ''updated_at'' (JStr now)
                     (AList.update ''payments'' (JObj pm') d))"
  have flok: "list_all (\<lambda>kv. is_bool (snd kv)) fl"
    unfolding fl_def by (rule flags_in_ok[OF pmok])
  have sm: "(map_of pm member = None \<longrightarrow>
               set_months (JObj (AList.update member (JObj []) pm)) member ms paid = Inr (JObj pm'))
           \<and> (map_of pm member \<noteq> None \<longrightarrow> set_months (JObj pm) member ms paid = Inr (JObj pm'))"
  proof (cases rule: entry_lookup[OF pmok, of member])
    case 1
    have "map_of (AList.update member (JObj []) pm) member = Some (JObj [])"
      by (simp add: AList.update_conv')
    from set_months_ok[OF this, of ms paid] 1 show ?thesis
      by (simp add: pm'_def fl'_def fl_def flags_in_def)
  next
    case (2 f)
    from set_months_ok[OF 2(1), of ms paid] 2 show ?thesis
      by (simp add: pm'_def fl'_def fl_def flags_in_def)
  qed
  have eff: "bulk_update_payments fs now year member ms paid =
             Inr (write_file fs (get_data_file_path year) (Text (Doc data')))"
    using l pm sm
    by (simp add: bulk_update_payments_def d py_getitem_def py_in_def py_setitem_def
          save_data_def data'_def)
  have hist: "(map_of d ''payment_history'' = None \<and> history_of (JObj d) = [])
     \<or> (map_of d ''payment_history'' = Some (JArr (history_of (JObj d)))
          \<and> list_all entry_ok (history_of (JObj d)))"
    using year_record_history[OF yr[unfolded d]] by simp
  have yr': "year_record data'"
    using mems hist pmok flok
    by (auto simp: data'_def year_record_def AList.update_conv' pm'_def fl'_def
          list_all_update flags_ok_def fold_update_ok)
  have fo: "\<forall>m \<in> set ms. flag_of data' member m = Some (JBool paid)"
    by (simp add: data'_def flag_of_def field_def AList.update_conv' pm'_def fl'_def
          fold_update_lookup)
  have fo': "\<forall>m. m \<notin> set ms \<longrightarrow> flag_of data' member m = flag_of data member m"
  proof (cases rule: entry_lookup[OF pmok, of member])
    case 1
    then show ?thesis
      by (simp add: data'_def flag_of_def field_def AList.update_conv' pm'_def fl'_def
          fold_update_lookup d pm fl_def flags_in_def)
  next
    case (2 f)
    then show ?thesis
      by (simp add: data'_def flag_of_def field_def AList.update_conv' pm'_def fl'_def
          fold_update_lookup d pm fl_def flags_in_def)
  qed
  have mem: "field ''members'' data' = field ''members'' data"
    by (simp add: data'_def d field_def AList.update_conv')
  have keys: "payment_keys data' = insert member (payment_keys data)"
    by (simp add: data'_def d payment_keys_def field_def AList.update_conv' pm pm'_def
          AList.dom_update)
  have h: "field ''payment_history'' data' = field ''payment_history'' data"
    by (simp add: data'_def d field_def AList.update_conv')
  show ?thesis
    using eff yr' fo fo' mem keys h by blast
qed

lemma members_have_payments_iff:
  "members_have_payments data \<longleftrightarrow>
     (\<exists>ms pm. field ''members'' data = Some (JArr ms) \<and> field ''payments'' data = Some (JObj pm)
        \<and> (\<forall>m \<in> set ms. \<exists>k. m = JStr k \<and> k \<in> payment_keys data))"
proof -
  have *: "has_entry pm m \<longleftrightarrow> (\<exists>k. m = JStr k \<and> k \<in> fst ` set pm)" for pm m
    by (cases m) (auto simp: has_entry_def map_of_eq_None_iff)
  show ?thesis
    by (cases "field ''members'' data"; cases "the (field ''members'' data)";
        cases "field ''payments'' data"; cases "the (field ''payments'' data)")
       (simp_all add: members_have_payments_def list_all_iff * payment_keys_def)
qed

lemma members_have_payments_grow:
  assumes "members_have_payments data" and "year_record data'"
      and "field ''members'' data' = field ''members'' data"
      and "payment_keys data \<subseteq> payment_keys data'"
  shows "members_have_payments data'"
proof -
  from assms(2) obtain d where d: "data' = JObj d" using year_record_obj by blast
  with assms(2) obtain pm where "field ''payments'' data' = Some (JObj pm)"
    using year_record_payments[of d] by (auto simp: field_def)
  with assms(1,3,4) show ?thesis
    unfolding members_have_payments_iff by fastforce
qed


text \<open>
  C2. The specification asks \<^verbatim>\<open>bulk_update_payments\<close> to behave as \<^verbatim>\<open>update_payment\<close>
  applied to each month in order, history included. On the example store, marking January
  and February paid for Bob month by month appends two history entries;
  \<^verbatim>\<open>bulk_update_payments\<close> sets the same flags and appends none.
\<close>

theorem bulk_update_payments_logs_nothing:
  "result_field (bulk_update_payments example_store ''2024-03-01T12:00:00'' 2024 ''Bob''
       [''Jan'', ''Feb''] True) 2024 ''payment_history''
     = Some (JArr [history_entry ''2024-01-05T10:00:00'' ''Alice'' ''Jan'' (JBool False) True])
   \<and> result_field (update_payment_each example_store ''2024-03-01T12:00:00'' 2024 ''Bob''
       [''Jan'', ''Feb''] True) 2024 ''payment_history''
     = Some (JArr [history_entry ''2024-01-05T10:00:00'' ''Alice'' ''Jan'' (JBool False) True,
                   history_entry ''2024-03-01T12:00:00'' ''Bob'' ''Jan'' (JBool False) True,
                   history_entry ''2024-03-01T12:00:00'' ''Bob'' ''Feb'' (JBool False) True])"
  by (simp add: result_field_def bulk_update_payments_def update_payment_def load_data_def
        example_store_def example_record_def path_2024 py_getitem_def py_in_def py_setitem_def
        py_get_def py_eq_bool_def log_change_def py_append_def save_data_def write_file_def
        stored_record_def field_def)


text \<open>
  C10. On a year record in which every member has a payments entry, \<^verbatim>\<open>update_payment\<close>
  and \<^verbatim>\<open>bulk_update_payments\<close> succeed for every name, member or not: the name gets a
  payments entry, the members list stays as it was, and every member still has a
  payments entry. So a name outside the members list becomes a key of the payments.
\<close>

theorem payment_for_any_name:
  assumes "load_data fs now year = Inr data"
      and "year_record data"
      and "members_have_payments data"
  shows "\<exists>fs1 d1 fs2 d2.
           update_payment fs now year name month paid = Inr fs1
         \<and> stored_record fs1 year = Some d1
         \<and> name \<in> payment_keys d1
         \<and> field ''members'' d1 = field ''members'' data
         \<and> members_have_payments d1
         \<and> bulk_update_payments fs now year name ms paid = Inr fs2
         \<and> stored_record fs2 year = Some d2
         \<and> name \<in> payment_keys d2
         \<and> field ''members'' d2 = field ''members'' data
         \<and> members_have_payments d2"
proof -
  let ?p = "get_data_file_path year"
  obtain d1 where 1:
      "update_payment fs now year name month paid = Inr (write_file fs ?p (Text (Doc d1)))"
      "year_record d1" "field ''members'' d1 = field ''members'' data"
      "payment_keys d1 = insert name (payment_keys data)"
    using update_payment_result[OF assms(1,2), of name month paid] by blast
  obtain d2 where 2:
      "bulk_update_payments fs now year name ms paid = Inr (write_file fs ?p (Text (Doc d2)))"
      "year_record d2" "field ''members'' d2 = field ''members'' data"
      "payment_keys d2 = insert name (payment_keys data)"
    using bulk_update_payments_result[OF assms(1,2), of name ms paid] by blast
  have "members_have_payments d1"
    using assms(3) 1 by (intro members_have_payments_grow[of data d1]) auto
  moreover have "members_have_payments d2"
    using assms(3) 2 by (intro members_have_payments_grow[of data d2]) auto
  ultimately show ?thesis
    using 1 2 stored_record_write by fastforce
qed

theorem payment_for_any_name_witness:
  "load_data example_store ''2024-03-01T12:00:00'' 2024 = Inr example_record
   \<and> year_record example_record
   \<and> members_have_payments example_record
   \<and> field ''members'' example_record = Some (JArr [JStr ''Alice'', JStr ''Bob''])
   \<and> (\<exists>fs1 d1 fs2 d2.
           update_payment example_store ''2024-03-01T12:00:00'' 2024 ''Carol'' ''Mar'' True = Inr fs1
         \<and> stored_record fs1 2024 = Some d1
         \<and> ''Carol'' \<in> payment_keys d1
         \<and> field ''members'' d1 = Some (JArr [JStr ''Alice'', JStr ''Bob''])
         \<and> members_have_payments d1
         \<and> bulk_update_payments example_store ''2024-03-01T12:00:00'' 2024 ''Carol''
              [''Apr'', ''May''] True = Inr fs2
         \<and> stored_record fs2 2024 = Some d2
         \<and> ''Carol'' \<in> payment_keys d2
         \<and> field ''members'' d2 = Some (JArr [JStr ''Alice'', JStr ''Bob''])
         \<and> members_have_payments d2)"
proof -
  have m: "field ''members'' example_record = Some (JArr [JStr ''Alice'', JStr ''Bob''])"
    by (simp add: field_def example_record_def)
  show ?thesis
    using payment_for_any_name [OF load_example year_record_example
        members_have_payments_example,
        where name = "''Carol''" and month = "''Mar''" and paid = True
          and ms = "[''Apr'', ''May'']"]
      load_example year_record_example members_have_payments_example m
    by (simp only: m simp_thms) 
qed

subsection \<open>Years and file names\<close>

lemma is_digit_digit_char: "d < 10 \<Longrightarrow> is_digit (digit_char d)"
  by (simp add: is_digit_def digit_char_def of_char_of)

lemma digit_val_digit_char: "d < 10 \<Longrightarrow> digit_val (digit_char d) = d"
  by (simp add: digit_val_def digit_char_def of_char_of)

lemma digits_str_nat: "list_all is_digit (str_nat n)"
  by (induction n rule: str_nat.induct) (subst str_nat.simps, simp add: is_digit_digit_char)

lemma str_nat_not_Nil: "str_nat n \<noteq> []"
  by (subst str_nat.simps) simp

lemma scan_digits_all:
  "list_all is_digit cs \<Longrightarrow>
     scan_digits acc cs = Some (foldl (\<lambda>a c. a * 10 + digit_val c) acc cs)"
  by (induction acc cs rule: scan_digits.induct) simp_all

lemma value_str_nat: "foldl (\<lambda>a c. a * 10 + digit_val c) 0 (str_nat n) = n"
proof (induction n rule: str_nat.induct)
  case (1 n)
  show ?case
  proof (cases "n < 10")
    case True
    then show ?thesis by (subst str_nat.simps) (simp add: digit_val_digit_char)
  next
    case False
    with 1 show ?thesis by (subst str_nat.simps) (simp add: digit_val_digit_char)
  qed
qed

lemma parse_nat_str_nat: "parse_nat (str_nat n) = Some n"
proof -
  obtain c cs where s: "str_nat n = c # cs"
    using str_nat_not_Nil[of n] by (cases "str_nat n") auto
  have d: "is_digit c" "list_all is_digit cs"
    using digits_str_nat[of n] s by simp_all
  have "foldl (\<lambda>a c. a * 10 + digit_val c) (digit_val c) cs = n"
    using value_str_nat[of n] s by simp
  with d s show ?thesis by (simp add: parse_nat_def scan_digits_all)
qed

lemma digit_not_sign: "is_digit c \<Longrightarrow> c \<noteq> CHR ''-'' \<and> c \<noteq> CHR ''+''"
  by (auto simp: is_digit_def)

lemma str_nat_inj: "str_nat m = str_nat n \<Longrightarrow> m = n"
  by (metis parse_nat_str_nat option.inject)

lemma str_nat_no_sign: "str_nat n \<noteq> CHR ''-'' # cs"
proof
  assume e: "str_nat n = CHR ''-'' # cs"
  have "list_all is_digit (str_nat n)" by (rule digits_str_nat)
  with e have "is_digit (CHR ''-'')" by simp
  then show False using digit_not_sign by blast
qed

lemma py_str_inj: "py_str i = py_str j \<Longrightarrow> i = j"
proof -
  assume e: "py_str i = py_str j"
  show "i = j"
  proof (cases "i < 0")
    case True
    note i = True
    show ?thesis
    proof (cases "j < 0")
      case True
      with i e have "str_nat (nat (- i)) = str_nat (nat (- j))" by (simp add: py_str_def)
      then have "nat (- i) = nat (- j)" by (rule str_nat_inj)
      with i True show ?thesis by simp
    next
      case False
      with i e have "str_nat (nat j) = CHR ''-'' # str_nat (nat (- i))"
        by (simp add: py_str_def)
      then show ?thesis using str_nat_no_sign by blast
    qed
  next
    case False
    note i = False
    show ?thesis
    proof (cases "j < 0")
      case True
      with i e have "str_nat (nat i) = CHR ''-'' # str_nat (nat (- j))"
        by (simp add: py_str_def)
      then show ?thesis using str_nat_no_sign by blast
    next
      case False
      with i e have "str_nat (nat i) = str_nat (nat j)" by (simp add: py_str_def)
      then have "nat i = nat j" by (rule str_nat_inj)
      with i False show ?thesis by simp
    qed
  qed
qed

lemma get_data_file_path_inj: "get_data_file_path i = get_data_file_path j \<longleftrightarrow> i = j"
  by (auto simp: get_data_file_path_def dest: py_str_inj)

subsection \<open>Members\<close>

lemma add_member_new:
  assumes "load_data fs now year = Inr (JObj d)"
      and "map_of d ''members'' = Some (JArr ms)"
      and "map_of d ''payments'' = Some (JObj pm)"
      and "JStr name \<notin> set ms"
  shows "add_member fs now year name =
           Inr (write_file fs (get_data_file_path year)
             (Text (Doc (JObj (AList.update ''updated_at'' (JStr now)
               (AList.update ''payments'' (JObj (AList.update name (JObj []) pm))
                 (AList.update ''members'' (JArr (ms @ [JStr name])) d)))))))"
  using assms
  by (simp add: add_member_def py_getitem_def py_in_def py_append_def py_setitem_def
        save_data_def AList.update_conv')

lemma add_member_present:
  assumes "load_data fs now year = Inr (JObj d)"
      and "map_of d ''members'' = Some (JArr ms)"
      and "JStr name \<in> set ms"
  shows "add_member fs now year name = Inr fs"
  using assms by (simp add: add_member_def py_getitem_def py_in_def)

lemma remove_member_present:
  assumes "load_data fs now year = Inr (JObj d)"
      and "map_of d ''members'' = Some (JArr ms)"
      and "map_of d ''payments'' = Some (JObj pm)"
      and "JStr name \<in> set ms"
  shows "\<exists>d'. remove_member fs now year name =
           Inr (write_file fs (get_data_file_path year) (Text (Doc (JObj d'))))
         \<and> map_of d' ''members'' = Some (JArr (remove1 (JStr name) ms))
         \<and> map_of d' ''payment_history'' = map_of d ''payment_history''"
  using assms
  by (cases "map_of pm name")
     (auto simp add: remove_member_def py_getitem_def py_in_def py_remove_def py_setitem_def
        py_delitem_def save_data_def AList.update_conv')

text \<open>
  C7, as amended. For a name that is not yet in the members list of a year,
  \<^verbatim>\<open>add_member\<close> followed by \<^verbatim>\<open>remove_member\<close> with that name leaves the members list as
  it was before the two calls, and neither call touches the payment history.
\<close>

theorem add_then_remove_member:
  assumes "load_data fs now year = Inr data"
      and "field ''members'' data = Some (JArr ms)"
      and "field ''payments'' data = Some (JObj pm)"
      and "JStr name \<notin> set ms"
  shows "\<exists>fs1 d1 fs2 d2.
           add_member fs now year name = Inr fs1
         \<and> stored_record fs1 year = Some d1
         \<and> field ''members'' d1 = Some (JArr (ms @ [JStr name]))
         \<and> field ''payment_history'' d1 = field ''payment_history'' data
         \<and> remove_member fs1 now' year name = Inr fs2
         \<and> stored_record fs2 year = Some d2
         \<and> field ''members'' d2 = Some (JArr ms)
         \<and> field ''payment_history'' d2 = field ''payment_history'' data"
proof -
  let ?p = "get_data_file_path year"
  from assms(2) obtain d where d: "data = JObj d" by (cases data) (simp_all add: field_def)
  let ?d1 = "AList.update ''updated_at'' (JStr now)
               (AList.update ''payments'' (JObj (AList.update name (JObj []) pm))
                 (AList.update ''members'' (JArr (ms @ [JStr name])) d))"
  let ?fs1 = "write_file fs ?p (Text (Doc (JObj ?d1)))"
  have a: "add_member fs now year name = Inr ?fs1"
    using assms by (intro add_member_new) (simp_all add: d field_def)
  have l1: "load_data ?fs1 now' year = Inr (JObj ?d1)"
    by (rule load_data_stored) (rule stored_record_write)
  have m1: "map_of ?d1 ''members'' = Some (JArr (ms @ [JStr name]))"
    by (simp add: AList.update_conv')
  have p1: "map_of ?d1 ''payments'' = Some (JObj (AList.update name (JObj []) pm))"
    by (simp add: AList.update_conv')
  have h1: "map_of ?d1 ''payment_history'' = map_of d ''payment_history''"
    by (simp add: AList.update_conv')
  obtain d2 where r: "remove_member ?fs1 now' year name =
           Inr (write_file ?fs1 ?p (Text (Doc (JObj d2))))"
      "map_of d2 ''members'' = Some (JArr (remove1 (JStr name) (ms @ [JStr name])))"
      "map_of d2 ''payment_history'' = map_of ?d1 ''payment_history''"
    using remove_member_present[OF l1 m1 p1, of name] by auto
  have "remove1 (JStr name) (ms @ [JStr name]) = ms"
    using assms(4) by (simp add: remove1_append)
  with r(2) have m2: "map_of d2 ''members'' = Some (JArr ms)" by simp
  let ?fs2 = "write_file ?fs1 ?p (Text (Doc (JObj d2)))"
  have s1: "stored_record ?fs1 year = Some (JObj ?d1)" by (rule stored_record_write)
  have s2: "stored_record ?fs2 year = Some (JObj d2)" by (rule stored_record_write)
  have f1: "field ''members'' (JObj ?d1) = Some (JArr (ms @ [JStr name]))"
    using m1 by (simp only: field_def json.case)
  have g1: "field ''payment_history'' (JObj ?d1) = field ''payment_history'' data"
    using h1 by (simp only: field_def json.case d)
  have f2: "field ''members'' (JObj d2) = Some (JArr ms)"
    using m2 by (simp only: field_def json.case)
  have g2: "field ''payment_history'' (JObj d2) = field ''payment_history'' data"
    using r(3) h1 by (simp only: field_def json.case d)
  from a s1 f1 g1 r(1) s2 f2 g2 show ?thesis by blast
qed

theorem add_then_remove_member_witness:
  "load_data example_store ''2024-03-01T12:00:00'' 2024 = Inr example_record
   \<and> field ''members'' example_record = Some (JArr [JStr ''Alice'', JStr ''Bob''])
   \<and> field ''payments'' example_record =
        Some (JObj [(''Alice'', JObj [(''Jan'', JBool True)]), (''Bob'', JObj [])])
   \<and> JStr ''Carol'' \<notin> set [JStr ''Alice'', JStr ''Bob'']
   \<and> (\<exists>fs1 d1 fs2 d2.
           add_member example_store ''2024-03-01T12:00:00'' 2024 ''Carol'' = Inr fs1
         \<and> stored_record fs1 2024 = Some d1
         \<and> field ''members'' d1 = Some (JArr ([JStr ''Alice'', JStr ''Bob''] @ [JStr ''Carol'']))
         \<and> field ''payment_history'' d1 = field ''payment_history'' example_record
         \<and> remove_member fs1 ''2024-03-01T12:00:05'' 2024 ''Carol'' = Inr fs2
         \<and> stored_record fs2 2024 = Some d2
         \<and> field ''members'' d2 = Some (JArr [JStr ''Alice'', JStr ''Bob''])
         \<and> field ''payment_history'' d2 = field ''payment_history'' example_record)"
proof -
  have m: "field ''members'' example_record = Some (JArr [JStr ''Alice'', JStr ''Bob''])"
    by (simp add: field_def example_record_def)
  have p: "field ''payments'' example_record =
        Some (JObj [(''Alice'', JObj [(''Jan'', JBool True)]), (''Bob'', JObj [])])"
    by (simp add: field_def example_record_def)
  have n: "JStr ''Carol'' \<notin> set [JStr ''Alice'', JStr ''Bob'']"
    by simp
  show ?thesis
    using add_then_remove_member [OF load_example m p n,
        where now' = "''2024-03-01T12:00:05''"] load_example m p n
    by blast
qed

text \<open>
  The claim as stated, for every name, fails for a name that is already a member:
  \<^verbatim>\<open>add_member\<close> does nothing and \<^verbatim>\<open>remove_member\<close> then removes the name.
\<close>

theorem add_then_remove_existing_member:
  "field ''members'' example_record = Some (JArr [JStr ''Alice'', JStr ''Bob''])
   \<and> add_member example_store ''2024-03-01T12:00:00'' 2024 ''Alice'' = Inr example_store
   \<and> result_field (remove_member example_store ''2024-03-01T12:00:05'' 2024 ''Alice'')
        2024 ''members'' = Some (JArr [JStr ''Bob''])"
  by (simp add: result_field_def add_member_def remove_member_def load_data_def
        example_store_def example_record_def path_2024 py_getitem_def py_in_def py_setitem_def
        py_remove_def py_delitem_def save_data_def write_file_def
        stored_record_def field_def)


subsection \<open>Copying members\<close>

lemma reset_payments_names:
  "list_all is_str ms \<Longrightarrow>
     \<exists>pm'. reset_payments ms pm = Inr pm'
          \<and> (\<forall>k. map_of pm' k = (if JStr k \<in> set ms then Some (JObj []) else map_of pm k))"
proof (induction ms arbitrary: pm)
  case Nil
  then show ?case by simp
next
  case (Cons m ms)
  then obtain k where k: "m = JStr k" by (cases m) (simp_all add: is_str_def)
  from Cons.prems have "list_all is_str ms" by simp
  from Cons.IH[OF this, of "AList.update k (JObj []) pm"] k show ?case
    by (auto simp: AList.update_conv')
qed

text \<open>
  C8, as amended. For a source year and a different target year,
  \<^verbatim>\<open>copy_members_from_year\<close> gives the target the members list of the source, makes the
  target's payments the empty entry for each of these members and nothing else, keeps the
  target's payment history and settings, and leaves what the source year loads as
  unchanged.
\<close>

theorem copy_members_between_years:
  assumes "load_data fs now source_year = Inr sdata"
      and "load_data fs now target_year = Inr (JObj td)"
      and "field ''members'' sdata = Some (JArr ms)"
      and "list_all is_str ms"
      and "source_year \<noteq> target_year"
  shows "\<exists>fs' data' pm'.
           copy_members_from_year fs now source_year target_year = Inr fs'
         \<and> stored_record fs' target_year = Some data'
         \<and> field ''members'' data' = Some (JArr ms)
         \<and> field ''payments'' data' = Some (JObj pm')
         \<and> (\<forall>k. map_of pm' k = (if JStr k \<in> set ms then Some (JObj []) else None))
         \<and> field ''payment_history'' data' = field ''payment_history'' (JObj td)
         \<and> field ''settings'' data' = field ''settings'' (JObj td)
         \<and> load_data fs' now' source_year = load_data fs now' source_year"
proof -
  let ?p = "get_data_file_path target_year"
  from assms(3) obtain sd where sd: "sdata = JObj sd" "map_of sd ''members'' = Some (JArr ms)"
    by (cases sdata) (simp_all add: field_def)
  obtain pm' where pm': "reset_payments ms [] = Inr pm'"
      "\<forall>k. map_of pm' k = (if JStr k \<in> set ms then Some (JObj []) else None)"
    using reset_payments_names[OF assms(4), of "[]"] by auto
  let ?d' = "AList.update ''updated_at'' (JStr now)
               (AList.update ''payments'' (JObj pm')
                 (AList.update ''payments'' (JObj [])
                   (AList.update ''members'' (JArr ms) td)))"
  let ?fs' = "write_file fs ?p (Text (Doc (JObj ?d')))"
  have c: "copy_members_from_year fs now source_year target_year = Inr ?fs'"
    using assms(1,2) sd pm'(1)
    by (simp add: copy_members_from_year_def py_get_def py_copy_def py_setitem_def py_iter_def
          save_data_def)
  have s: "stored_record ?fs' target_year = Some (JObj ?d')" by (rule stored_record_write)
  have m: "field ''members'' (JObj ?d') = Some (JArr ms)"
    by (simp add: field_def AList.update_conv')
  have p: "field ''payments'' (JObj ?d') = Some (JObj pm')"
    by (simp add: field_def AList.update_conv')
  have h: "field ''payment_history'' (JObj ?d') = field ''payment_history'' (JObj td)"
    by (simp add: field_def AList.update_conv')
  have t: "field ''settings'' (JObj ?d') = field ''settings'' (JObj td)"
    by (simp add: field_def AList.update_conv')
  have "get_data_file_path source_year \<noteq> ?p"
    using assms(5) by (simp add: get_data_file_path_inj)
  then have "map_of ?fs' (get_data_file_path source_year) = map_of fs (get_data_file_path source_year)"
    by (simp add: write_file_def AList.update_conv')
  then have l: "load_data ?fs' now' source_year = load_data fs now' source_year"
    by (simp add: load_data_def)
  from c s m p pm'(2) h t l show ?thesis by blast
qed

lemma path_2025: "get_data_file_path 2025 = ''subscription_data_2025.json''"
  by code_simp

theorem copy_members_between_years_witness:
  "load_data example_store ''2025-01-02T08:00:00'' 2024 = Inr example_record
   \<and> load_data example_store ''2025-01-02T08:00:00'' 2025
        = Inr (default_record ''2025-01-02T08:00:00'' 2025)
   \<and> field ''members'' example_record = Some (JArr [JStr ''Alice'', JStr ''Bob''])
   \<and> list_all is_str [JStr ''Alice'', JStr ''Bob'']
   \<and> (2024 :: int) \<noteq> 2025
   \<and> (\<exists>fs' data' pm'.
           copy_members_from_year example_store ''2025-01-02T08:00:00'' 2024 2025 = Inr fs'
         \<and> stored_record fs' 2025 = Some data'
         \<and> field ''members'' data' = Some (JArr [JStr ''Alice'', JStr ''Bob''])
         \<and> field ''payments'' data' = Some (JObj pm')
         \<and> map_of pm' ''Alice'' = Some (JObj [])
         \<and> field ''payment_history'' data' = Some (JArr [])
         \<and> field ''settings'' data'
              = Some (JObj [(''total_price'', JFloat 100), (''max_slots'', JInt 10)])
         \<and> load_data fs' ''2025-01-02T08:00:09'' 2024 = Inr example_record)"
proof -
  let ?t = "''2025-01-02T08:00:00''"
  let ?td = "[(''year'', JInt 2025), (''members'', JArr []), (''payments'', JObj []),
              (''payment_history'', JArr []),
              (''settings'', JObj [(''total_price'', JFloat 100), (''max_slots'', JInt 10)]),
              (''created_at'', JStr ?t), (''updated_at'', JStr ?t)]"
  have l: "load_data example_store ?t 2025 = Inr (JObj ?td)"
    by (simp add: load_data_def example_store_def path_2025 default_record_def)
  have m: "field ''members'' example_record = Some (JArr [JStr ''Alice'', JStr ''Bob''])"
    by (simp add: field_def example_record_def)
  have a: "list_all is_str [JStr ''Alice'', JStr ''Bob'']"
    by (simp add: is_str_def)
  have n: "(2024 :: int) \<noteq> 2025" by simp
  obtain fs' data' pm' where r:
      "copy_members_from_year example_store ?t 2024 2025 = Inr fs'"
      "stored_record fs' 2025 = Some data'"
      "field ''members'' data' = Some (JArr [JStr ''Alice'', JStr ''Bob''])"
      "field ''payments'' data' = Some (JObj pm')"
      "\<forall>k. map_of pm' k = (if JStr k \<in> set [JStr ''Alice'', JStr ''Bob''] then Some (JObj [])
                             else None)"
      "field ''payment_history'' data' = field ''payment_history'' (JObj ?td)"
      "field ''settings'' data' = field ''settings'' (JObj ?td)"
      "load_data fs' ''2025-01-02T08:00:09'' 2024
         = load_data example_store ''2025-01-02T08:00:09'' 2024"
    using copy_members_between_years [OF load_example l m a n,
        where now' = "''2025-01-02T08:00:09''"] by blast
  from r(5) have "map_of pm' ''Alice'' = Some (JObj [])" by simp
  with r l m a n load_example show ?thesis
    by (simp add: field_def default_record_def)
qed

text \<open>
  The claim as stated, for every pair of years, fails when source and target are the same
  year: the record of that year, which is the source, loses its payment flags.
\<close>

theorem copy_members_same_year:
  "field ''payments'' example_record =
      Some (JObj [(''Alice'', JObj [(''Jan'', JBool True)]), (''Bob'', JObj [])])
   \<and> result_field (copy_members_from_year example_store ''2024-03-01T12:00:00'' 2024 2024)
        2024 ''payments'' = Some (JObj [(''Alice'', JObj []), (''Bob'', JObj [])])"
  by (simp add: result_field_def copy_members_from_year_def load_data_def
        example_store_def example_record_def path_2024 py_get_def py_copy_def py_setitem_def
        py_iter_def save_data_def write_file_def stored_record_def field_def)


subsection \<open>Restoring a backup\<close>

lemma restore_no_years_key:
  assumes "\<not> has_years_key j"
  shows "fst (restore_from_backup fs now (Doc j)) = fs
       \<and> \<not> fst (snd (restore_from_backup fs now (Doc j)))"
  using assms
  by (cases j)
     (auto simp: restore_from_backup_def has_years_key_def py_in_def py_getitem_def
           split: sum.splits bool.splits)

lemma restore_missing_years:
  assumes "map_of d ''years'' = None"
  shows "restore_from_backup fs now (Doc (JObj d)) =
           (fs, False, Message ''Invalid backup format: missing 'years' key'')"
  using assms by (simp add: restore_from_backup_def py_in_def)

lemma restore_garbled:
  "restore_from_backup fs now Garbled = (fs, False, Message ''Invalid JSON format'')"
  by (simp add: restore_from_backup_def)

lemma restore_years_skip:
  "restore_years fs now entries acc = restore_years fs now (filter coercible entries) acc"
proof (induction entries arbitrary: fs acc)
  case Nil
  then show ?case by simp
next
  case (Cons e entries)
  obtain k v where e: "e = (k, v)" by (cases e)
  show ?case
    using Cons.IH
    by (simp add: e coercible_def split: option.splits sum.splits)
qed

lemma py_int_2023: "py_int ''2023'' = Some 2023" by code_simp

lemma py_int_2024: "py_int ''2024'' = Some 2024" by code_simp

lemma path_2023: "get_data_file_path 2023 = ''subscription_data_2023.json''" by code_simp

text \<open>
  C3. The claim has \<^verbatim>\<open>restore_from_backup\<close> return a success if and only if at least one
  year was restored, a bad entry not ending the loop. On a backup with a good entry for
  2023 and a list under 2024, the record of 2023 is written, the \<^verbatim>\<open>TypeError\<close> that
  \<^verbatim>\<open>save_data\<close> raises for the list passes the loop's \<^verbatim>\<open>except (ValueError, KeyError)\<close>,
  and the outer handler returns a failure: one year is restored and stays in the store,
  and the result says the restore failed. The other parts of the claim are the lemmas
  above: the failure for a dict without \<^verbatim>\<open>years\<close>, the failure for text that is not JSON,
  and the skipping of entries whose key \<^verbatim>\<open>int\<close> refuses.
\<close>

theorem restore_fails_after_restoring:
  "restore_from_backup [] ''2024-03-01T12:00:00''
     (Doc (JObj [(''backup_timestamp'', JStr ''2024-02-01T00:00:00''),
                 (''years'', JObj [(''2023'', JObj [(''members'', JArr [JStr ''Alice''])]),
                                   (''2024'', JArr [])])]))
   = ([(''subscription_data_2023.json'',
        Text (Doc (JObj [(''members'', JArr [JStr ''Alice'']),
                         (''updated_at'', JStr ''2024-03-01T12:00:00'')])))],
      False, Error_during_restore TypeError)"
  by (simp add: restore_from_backup_def py_in_def py_getitem_def py_items_def py_int_2023
        py_int_2024 save_data_def py_setitem_def write_file_def path_2023 value_or_key_error_def)



subsection \<open>Backup and restore, there and back\<close>

lemma years_corrupt: "get_available_years corrupt_store = [2024]"
  by code_simp

lemma years_mixed: "get_available_years mixed_store = [2023, 2024]"
  by code_simp

lemma py_str_2023: "py_str 2023 = ''2023''" by code_simp

lemma py_str_2024: "py_str 2024 = ''2024''" by code_simp

text \<open>
  C1. The claim has the backup of every store restore to the same years. Two stores on
  which the code does otherwise. When the file of a year is not UTF-8, \<^verbatim>\<open>load_data\<close>
  raises \<^verbatim>\<open>UnicodeDecodeError\<close> and \<^verbatim>\<open>create_full_backup\<close> with it: there is no backup.
  When the file of 2023 holds a JSON list beside a good file for 2024, the backup carries
  the list, \<^verbatim>\<open>save_data\<close> raises \<^verbatim>\<open>TypeError\<close> on it, the restore ends with a failure
  before 2024 is written, and 2024 loads with no members where the original had two.
\<close>

theorem backup_round_trip_fails:
  "create_full_backup corrupt_store ''2024-03-01T12:00:00'' = Inl UnicodeDecodeError
   \<and> create_full_backup mixed_store ''2024-03-01T12:00:00'' = Inr mixed_backup
   \<and> restore_from_backup [] ''2024-03-02T09:00:00'' mixed_backup
       = ([], False, Error_during_restore TypeError)
   \<and> load_data mixed_store ''2024-03-03T09:00:00'' 2024 = Inr example_record
   \<and> field ''members'' example_record = Some (JArr [JStr ''Alice'', JStr ''Bob''])
   \<and> load_data [] ''2024-03-03T09:00:00'' 2024 = Inr (default_record ''2024-03-03T09:00:00'' 2024)
   \<and> field ''members'' (default_record ''2024-03-03T09:00:00'' 2024) = Some (JArr [])"
proof -
  have l: "load_data corrupt_store now 2024 = Inl UnicodeDecodeError" for now
    by (simp add: load_data_def corrupt_store_def path_2024)
  have c: "create_full_backup corrupt_store ''2024-03-01T12:00:00'' = Inl UnicodeDecodeError"
    by (simp add: create_full_backup_def years_corrupt l)
  have l3: "load_data mixed_store now 2023 = Inr (JArr [])" for now
    by (simp add: load_data_def mixed_store_def path_2023)
  have l4: "load_data mixed_store now 2024 = Inr example_record" for now
    by (simp add: load_data_def mixed_store_def path_2024)
  have b: "create_full_backup mixed_store ''2024-03-01T12:00:00'' = Inr mixed_backup"
    by (simp add: create_full_backup_def years_mixed l3 l4 py_str_2023 py_str_2024
          mixed_backup_def)
  have r: "restore_from_backup [] ''2024-03-02T09:00:00'' mixed_backup
       = ([], False, Error_during_restore TypeError)"
    by (simp add: restore_from_backup_def mixed_backup_def py_in_def py_getitem_def
          py_items_def py_int_2023 save_data_def py_setitem_def value_or_key_error_def)
  show ?thesis
    using c b r l4 by (simp add: load_data_def field_def example_record_def default_record_def)
qed

end
